theory Spec2Isabelle
  imports Main
begin

section \<open>JavaScript values\<close>

text \<open>
  The claim bags handled by \<^verbatim>\<open>ResponseValidator.ts\<close> are typed \<^verbatim>\<open>any\<close>: they are the
  values produced by parsing a JSON document. A value is a tree; two composite values
  (arrays, objects) that sit at different places of a tree, or in two documents parsed
  separately, are different objects for \<^verbatim>\<open>===\<close> and \<^verbatim>\<open>indexOf\<close>, whatever their content.
  Numbers are the integers, held exactly (JSON has neither NaN nor infinities; a number
  beyond the range in which a double is exact, or with a fraction, has no counterpart
  here), and strings are strings of ASCII characters. An object is the list of its own
  properties in enumeration order, each name occurring once. Members inherited from the
  built-in prototypes (\<^verbatim>\<open>constructor\<close>, \<^verbatim>\<open>toString\<close>, ...) are not part of the model:
  property names are the names of own properties. In particular an object has no
  prototype slot here, so that the name \<^verbatim>\<open>__proto__\<close>, which JavaScript reads and writes
  through an accessor that every object inherits, is outside the model; the properties
  below that depend on it exclude that name.
\<close>

datatype json =
    JUndefined
  | JNull
  | JBool bool
  | JNum int
  | JStr string
  | JArr "json list"
  | JObj "(string \<times> json) list"

type_synonym claims = "(string \<times> json) list"

text \<open>\<^verbatim>\<open>!!v\<close>: the values that pass an \<^verbatim>\<open>if (v)\<close>.\<close>

fun truthy :: "json \<Rightarrow> bool" where
  "truthy JUndefined = False"
| "truthy JNull = False"
| "truthy (JBool b) = b"
| "truthy (JNum n) = (n \<noteq> 0)"
| "truthy (JStr s) = (s \<noteq> [])"
| "truthy (JArr xs) = True"
| "truthy (JObj ps) = True"

text \<open>\<^verbatim>\<open>a === b\<close>: primitives by value, composite values by identity.\<close>

fun strict_eq :: "json \<Rightarrow> json \<Rightarrow> bool" where
  "strict_eq (JArr xs) b = False"
| "strict_eq (JObj ps) b = False"
| "strict_eq a b = (a = b)"

fun isArray :: "json \<Rightarrow> bool" where
  "isArray (JArr xs) = True"
| "isArray v = False"

text \<open>\<^verbatim>\<open>typeof v === "object"\<close>, which holds of \<^verbatim>\<open>null\<close> too.\<close>

fun typeof_object :: "json \<Rightarrow> bool" where
  "typeof_object JNull = True"
| "typeof_object (JArr xs) = True"
| "typeof_object (JObj ps) = True"
| "typeof_object v = False"

text \<open>
  \<^verbatim>\<open>obj[name]\<close> on an object, for a name that objects do not inherit: \<^verbatim>\<open>undefined\<close>
  when the property is missing.
\<close>

definition get_prop :: "claims \<Rightarrow> string \<Rightarrow> json" where
  "get_prop obj name = (case map_of obj name of None \<Rightarrow> JUndefined | Some v \<Rightarrow> v)"

text \<open>
  \<^verbatim>\<open>obj[name] = v\<close>, for a name other than \<^verbatim>\<open>__proto__\<close>: an existing property keeps its
  place, a new one comes last.
\<close>

fun set_prop :: "claims \<Rightarrow> string \<Rightarrow> json \<Rightarrow> claims" where
  "set_prop [] name v = [(name, v)]"
| "set_prop ((k, w) # ps) name v =
     (if k = name then (k, v) # ps else (k, w) # set_prop ps name v)"

text \<open>\<^verbatim>\<open>delete obj[name]\<close>.\<close>

definition delete_prop :: "claims \<Rightarrow> string \<Rightarrow> claims" where
  "delete_prop obj name = filter (\<lambda>p. fst p \<noteq> name) obj"

text \<open>
  Modelled from the spec: the class \<^verbatim>\<open>ErrorResponse\<close> is declared outside the files at
  hand; its constructor here carries the error code, the description, the URI and the
  opaque application data of the response it was made from. The other constructors are
  the \<^verbatim>\<open>throw\<close>s and rejected promises of the two files, one per message.
\<close>

datatype error =
    StateDoesNotMatch
  | NoClientIdOnState
  | NoAuthorityOnState
  | AuthorityMismatch
  | ClientIdMismatch
  | ErrorResponse "string option" "string option" "string option" json
  | NoIdTokenInResponse
  | UnexpectedIdTokenInResponse
  | NoCodeInResponse
  | UnexpectedCodeInResponse
  | SubMismatch
  | InvalidNonce
  | NoSubInIdToken
  | NoSigningKeys
  | NoNonceOnState
  | FailedToParseIdToken
  | NoMatchingKey
  | NoProfile
  | NoAtHash
  | NoIdToken
  | UnsupportedAlg "string option"
  | AtHashFailed
  | NoMetadataUrl
  | MissingMetadataProperty string
  | MissingKeys
  | TypeError
  | CollaboratorError string

text \<open>
  \<^verbatim>\<open>x.name\<close> on a value of type \<^verbatim>\<open>any\<close>, for the names the validator reads
  (\<^verbatim>\<open>sub\<close>, \<^verbatim>\<open>keys\<close>, \<^verbatim>\<open>kid\<close>, \<^verbatim>\<open>kty\<close>): a TypeError on \<^verbatim>\<open>null\<close> and \<^verbatim>\<open>undefined\<close>,
  the own property on an object. On the other values the result is \<^verbatim>\<open>undefined\<close>, which
  is what JavaScript yields for \<^verbatim>\<open>kid\<close> and \<^verbatim>\<open>kty\<close>; an array's \<^verbatim>\<open>keys\<close> and a string's
  \<^verbatim>\<open>sub\<close> are inherited methods and have no counterpart here, and the properties below
  read \<^verbatim>\<open>keys\<close> and \<^verbatim>\<open>sub\<close> from objects only.
\<close>

fun member :: "json \<Rightarrow> string \<Rightarrow> error + json" where
  "member JUndefined name = Inl TypeError"
| "member JNull name = Inl TypeError"
| "member (JObj ps) name = Inr (get_prop ps name)"
| "member v name = Inr JUndefined"

subsection \<open>Decimal numerals and \<^verbatim>\<open>parseInt\<close>\<close>

definition digit_char :: "nat \<Rightarrow> char" where
  "digit_char n = ''0123456789'' ! n"

fun string_of_nat :: "nat \<Rightarrow> string" where
  "string_of_nat n =
     (if n < 10 then [digit_char n]
      else string_of_nat (n div 10) @ [digit_char (n mod 10)])"

declare string_of_nat.simps [simp del]

definition string_of_int :: "int \<Rightarrow> string" where
  "string_of_int i = (if i < 0 then CHR ''-'' # string_of_nat (nat (- i)) else string_of_nat (nat i))"

text \<open>
  \<^verbatim>\<open>String(v)\<close>, applied by \<^verbatim>\<open>parseInt\<close> to an argument that is not a string. A number
  is printed in full, as JavaScript prints the integers below \<^verbatim>\<open>1e21\<close>.
\<close>

fun join_comma :: "string list \<Rightarrow> string" where
  "join_comma [] = []"
| "join_comma [s] = s"
| "join_comma (s # t # ss) = s @ '','' @ join_comma (t # ss)"

fun to_string :: "json \<Rightarrow> string" where
  "to_string JUndefined = ''undefined''"
| "to_string JNull = ''null''"
| "to_string (JBool b) = (if b then ''true'' else ''false'')"
| "to_string (JNum n) = string_of_int n"
| "to_string (JStr s) = s"
| "to_string (JArr xs) =
     join_comma (map (\<lambda>x. if x = JUndefined \<or> x = JNull then [] else to_string x) xs)"
| "to_string (JObj ps) = ''[object Object]''"

definition is_white :: "char \<Rightarrow> bool" where
  "is_white c = (c \<in> set [CHR '' '', CHR 0x09, CHR 0x0A, CHR 0x0B, CHR 0x0C, CHR 0x0D])"

definition digit_value :: "char \<Rightarrow> nat option" where
  "digit_value c =
     (let n = of_char c :: nat in
      if 48 \<le> n \<and> n \<le> 57 then Some (n - 48)
      else if 97 \<le> n \<and> n \<le> 122 then Some (n - 87)
      else if 65 \<le> n \<and> n \<le> 90 then Some (n - 55)
      else None)"

text \<open>The longest prefix of digits of the radix, most significant first.\<close>

fun leading_digits :: "nat \<Rightarrow> string \<Rightarrow> nat list" where
  "leading_digits radix [] = []"
| "leading_digits radix (c # cs) =
     (case digit_value c of
        None \<Rightarrow> []
      | Some d \<Rightarrow> if d < radix then d # leading_digits radix cs else [])"

definition digits_value :: "nat \<Rightarrow> nat list \<Rightarrow> nat" where
  "digits_value radix ds = foldl (\<lambda>acc d. acc * radix + d) 0 ds"

text \<open>
  \<^verbatim>\<open>parseInt(s)\<close> with no radix: leading white space is skipped, a sign is read, a
  \<^verbatim>\<open>0x\<close> prefix selects radix 16, the longest prefix of digits is the value, and the
  result is NaN (\<open>None\<close>) when there is no digit. The value is the exact integer, which
  is JavaScript's result as long as a double holds it exactly.
\<close>

definition parseInt :: "string \<Rightarrow> int option" where
  "parseInt s =
     (let s1 = dropWhile is_white s;
          neg = (case s1 of c # r \<Rightarrow> c = CHR ''-'' | [] \<Rightarrow> False);
          s2 = (case s1 of c # r \<Rightarrow> if c = CHR ''-'' \<or> c = CHR ''+'' then r else s1 | [] \<Rightarrow> s1);
          hex = (case s2 of a # b # r \<Rightarrow> a = CHR ''0'' \<and> (b = CHR ''x'' \<or> b = CHR ''X'') | _ \<Rightarrow> False);
          radix = (if hex then 16 else 10);
          ds = leading_digits radix (if hex then drop 2 s2 else s2)
      in if ds = [] then None
         else Some (if neg then - int (digits_value radix ds) else int (digits_value radix ds)))"

subsection \<open>Optional strings\<close>

text \<open>
  A field declared \<^verbatim>\<open>string | undefined\<close> is a \<open>string option\<close>. Its truthiness:
  defined and not the empty string.
\<close>

definition present :: "string option \<Rightarrow> bool" where
  "present x = (case x of None \<Rightarrow> False | Some s \<Rightarrow> s \<noteq> [])"

text \<open>\<^verbatim>\<open>a || b\<close> on such fields.\<close>

definition js_or :: "string option \<Rightarrow> string option \<Rightarrow> string option" where
  "js_or a b = (if present a then a else b)"

definition json_of :: "string option \<Rightarrow> json" where
  "json_of x = (case x of None \<Rightarrow> JUndefined | Some s \<Rightarrow> JStr s)"

subsection \<open>Own properties, \<^verbatim>\<open>Object.assign\<close>, arrays\<close>

fun index_props :: "nat \<Rightarrow> json list \<Rightarrow> claims" where
  "index_props i [] = []"
| "index_props i (x # xs) = (string_of_nat i, x) # index_props (Suc i) xs"

text \<open>
  The own enumerable properties of a value, as \<^verbatim>\<open>for (const name in v)\<close> and
  \<^verbatim>\<open>Object.assign({}, v)\<close> see them: the properties of an object, the indexed elements of
  an array, the indexed characters of a string, nothing for the other values.
\<close>

fun own_props :: "json \<Rightarrow> claims" where
  "own_props (JObj ps) = ps"
| "own_props (JArr xs) = index_props 0 xs"
| "own_props (JStr s) = index_props 0 (map (\<lambda>c. JStr [c]) s)"
| "own_props v = []"

fun assign_props :: "claims \<Rightarrow> claims \<Rightarrow> claims" where
  "assign_props target [] = target"
| "assign_props target ((k, v) # ps) = assign_props (set_prop target k v) ps"

text \<open>\<^verbatim>\<open>Object.assign(target, source)\<close>.\<close>

definition object_assign :: "claims \<Rightarrow> json \<Rightarrow> claims" where
  "object_assign target source = assign_props target (own_props source)"

text \<open>\<^verbatim>\<open>if (!Array.isArray(values)) values = [values]\<close>.\<close>

fun as_values :: "json \<Rightarrow> json list" where
  "as_values (JArr xs) = xs"
| "as_values v = [v]"

text \<open>\<^verbatim>\<open>a.indexOf(v) >= 0\<close>.\<close>

fun indexOf_found :: "json \<Rightarrow> json \<Rightarrow> bool" where
  "indexOf_found (JArr xs) v = list_ex (\<lambda>x. strict_eq x v) xs"
| "indexOf_found a v = False"

fun push :: "json \<Rightarrow> json \<Rightarrow> json" where
  "push (JArr xs) v = JArr (xs @ [v])"
| "push a v = a"

section \<open>Claim merge: \<^verbatim>\<open>ResponseValidator._mergeClaims\<close>\<close>

text \<open>
  The two nested loops of \<^verbatim>\<open>_mergeClaims\<close> are \<open>merge_names\<close> (over the names of the
  second claim set) and \<open>merge_values\<close> (over the values of one name); the flag is
  \<^verbatim>\<open>settings.mergeClaims\<close>. The recursive call is on a value of the second set.
\<close>

definition obj_weight :: "json \<Rightarrow> nat" where
  "obj_weight v = (if typeof_object v then Suc (size v) else 0)"

function mergeClaims :: "bool \<Rightarrow> json \<Rightarrow> json \<Rightarrow> claims"
  and merge_names :: "bool \<Rightarrow> claims \<Rightarrow> claims \<Rightarrow> claims"
  and merge_values :: "bool \<Rightarrow> string \<Rightarrow> claims \<Rightarrow> json list \<Rightarrow> claims"
where
  "mergeClaims mc claims1 claims2 =
     merge_names mc (object_assign [] claims1) (own_props claims2)"
| "merge_names mc result [] = result"
| "merge_names mc result ((name, values) # rest) =
     merge_names mc (merge_values mc name result (as_values values)) rest"
| "merge_values mc name result [] = result"
| "merge_values mc name result (value # rest) =
     merge_values mc name
       (if \<not> truthy (get_prop result name) then set_prop result name value
        else if isArray (get_prop result name) then
          (if \<not> indexOf_found (get_prop result name) value
           then set_prop result name (push (get_prop result name) value)
           else result)
        else if \<not> strict_eq (get_prop result name) value then
          (if typeof_object value \<and> mc
           then set_prop result name (JObj (mergeClaims mc (get_prop result name) value))
           else set_prop result name (JArr [get_prop result name, value]))
        else result)
       rest"
  by pat_completeness auto

termination
proof (relation "measures [
     (\<lambda>x. case x of Inl (mc, c1, c2) \<Rightarrow> size c2
          | Inr (Inl (mc, res, ps)) \<Rightarrow> sum_list (map (obj_weight \<circ> snd) ps)
          | Inr (Inr (mc, name, res, vs)) \<Rightarrow> sum_list (map obj_weight vs)),
     (\<lambda>x. case x of Inl _ \<Rightarrow> 2 | Inr (Inl _) \<Rightarrow> 1 | Inr (Inr _) \<Rightarrow> (0::nat)),
     (\<lambda>x. case x of Inl _ \<Rightarrow> 0 | Inr (Inl (mc, res, ps)) \<Rightarrow> length ps
          | Inr (Inr (mc, name, res, vs)) \<Rightarrow> length vs)]", goal_cases)
  have indexed: "sum_list (map (obj_weight \<circ> snd) (index_props i xs)) = sum_list (map obj_weight xs)"
    for i xs
    by (induction xs arbitrary: i) simp_all
  have elems: "sum_list (map obj_weight xs) \<le> size_list size xs" for xs
    by (induction xs) (simp_all add: obj_weight_def)
  have chars: "sum_list (map obj_weight (map (\<lambda>c. JStr [c]) s)) = 0" for s
    by (induction s) (simp_all add: obj_weight_def)
  have props: "sum_list (map (obj_weight \<circ> snd) ps) \<le> size_list (size_prod (\<lambda>x. 0) size) ps"
    for ps
    by (induction ps) (auto simp: obj_weight_def)
  have own: "sum_list (map (obj_weight \<circ> snd) (own_props c)) \<le> size c" for c
  proof (cases c)
    case (JArr xs)
    then show ?thesis using elems [of xs] by (simp add: indexed)
  next
    case (JStr s)
    then show ?thesis using chars [of s] by (simp add: indexed)
  next
    case (JObj ps)
    then show ?thesis using props [of ps] by simp
  qed simp_all
  have vals: "sum_list (map obj_weight (as_values v)) \<le> obj_weight v" for v
  proof (cases v)
    case (JArr xs)
    then show ?thesis using elems [of xs] by (simp add: obj_weight_def)
  qed simp_all
  {
    case 1
    show ?case by simp
  next
    case (2 mc claims1 claims2)
    show ?case using own [of claims2] by auto
  next
    case (3 mc result name "values" rest)
    show ?case using vals [of "values"] by auto
  next
    case (4 mc result name "values" rest)
    show ?case by auto
  next
    case (5 mc name result "value" rest)
    then show ?case by (simp add: obj_weight_def)
  next
    case (6 mc name result "value" rest)
    show ?case by auto
  }
qed

section \<open>Data model\<close>

text \<open>
  Modelled from the spec: the classes \<^verbatim>\<open>State\<close>, \<^verbatim>\<open>SigninState\<close>, \<^verbatim>\<open>SigninResponse\<close>,
  \<^verbatim>\<open>SignoutResponse\<close>, the settings store and the token response are declared outside the
  files at hand; the records below hold the
  fields that \<^verbatim>\<open>ResponseValidator.ts\<close> and \<^verbatim>\<open>MetadataService.ts\<close> read and write, at the
  types the specification's data model gives them. The opaque \<^verbatim>\<open>data\<close>, the response's
  \<^verbatim>\<open>state\<close> and the claim bags are arbitrary values.
\<close>

record State =
  st_id :: string
  st_data :: json

record SigninState = State +
  st_client_id :: "string option"
  st_authority :: "string option"
  st_nonce :: "string option"
  st_code_verifier :: "string option"
  st_redirect_uri :: "string option"
  st_scope :: "string option"
  st_client_secret :: "string option"
  st_extraTokenParams :: "claims option"
  st_skipUserInfo :: "bool option"

record SignoutResponse =
  so_state :: json
  so_error :: "string option"
  so_error_description :: "string option"
  so_error_uri :: "string option"

record SigninResponse =
  r_state :: json
  r_code :: "string option"
  r_error :: "string option"
  r_error_description :: "string option"
  r_error_uri :: "string option"
  r_id_token :: "string option"
  r_session_state :: "string option"
  r_access_token :: "string option"
  r_token_type :: "string option"
  r_scope :: "string option"
  r_expires_in :: "int option"
  r_profile :: "claims option"

text \<open>What the token endpoint answers; \<^verbatim>\<open>expires_in\<close> comes as a number or as a string.\<close>

record TokenResponse =
  tr_error :: "string option"
  tr_error_description :: "string option"
  tr_error_uri :: "string option"
  tr_id_token :: "string option"
  tr_session_state :: "string option"
  tr_access_token :: "string option"
  tr_token_type :: "string option"
  tr_scope :: "string option"
  tr_expires_in :: json

record Settings =
  cfg_authority :: "string option"
  cfg_metadataUrl :: "string option"
  cfg_metadata :: "claims option"
  cfg_metadataSeed :: "claims option"
  cfg_signingKeys :: json
  cfg_client_id :: "string option"
  cfg_clockSkewInSeconds :: int
  cfg_filterProtocolClaims :: bool
  cfg_loadUserInfo :: bool
  cfg_mergeClaims :: bool

record JwtHeader =
  h_alg :: "string option"
  h_kid :: "string option"

record Jwt =
  jwt_header :: "JwtHeader option"
  jwt_payload :: "claims option"

text \<open>The string of a field that a preceding test has found present.\<close>

definition str :: "string option \<Rightarrow> string" where
  "str x = (case x of None \<Rightarrow> [] | Some s \<Rightarrow> s)"

subsection \<open>Collaborators and the network\<close>

text \<open>
  Every request that leaves the process is appended to \<open>requests\<close>, a log kept beside the
  caches of the metadata service. A collaborator's answer may depend on the moment of the
  request, which is the number of requests made before it: a key set fetched again after a
  rotation differs from the first. The token client and the user-info service count as one
  request each; what they read from the metadata cache themselves is not modelled.
\<close>

datatype request = GetJson json | ExchangeCode claims | GetClaims string

record MetadataService =
  ms_metadataUrl :: "string option"
  ms_signingKeys :: json
  ms_metadata :: "claims option"
  requests :: "request list"

record Collaborators =
  c_getJson :: "nat \<Rightarrow> json \<Rightarrow> error + json"
  c_exchangeCode :: "nat \<Rightarrow> claims \<Rightarrow> error + TokenResponse"
  c_getClaims :: "nat \<Rightarrow> string \<Rightarrow> error + json"
  c_parseJwt :: "string \<Rightarrow> Jwt option"
  c_validateJwtAttributes :: "string \<Rightarrow> json \<Rightarrow> string option \<Rightarrow> int \<Rightarrow> int \<Rightarrow> error + claims"
  c_validateJwt :: "string \<Rightarrow> json \<Rightarrow> json \<Rightarrow> string option \<Rightarrow> int \<Rightarrow> error option"
  c_hashString :: "string \<Rightarrow> string \<Rightarrow> string option"
  c_hexToBase64Url :: "string \<Rightarrow> string"
  c_getEpochTime :: "nat \<Rightarrow> int"
  c_isOpenIdConnect :: "SigninResponse \<Rightarrow> bool"

section \<open>\<^verbatim>\<open>MetadataService.ts\<close>\<close>

definition OidcMetadataUrlPath :: string where
  "OidcMetadataUrlPath = ''.well-known/openid-configuration''"

text \<open>The constructor.\<close>

definition new_MetadataService :: "Settings \<Rightarrow> MetadataService" where
  "new_MetadataService settings =
     \<lparr> ms_metadataUrl =
         (if present (cfg_metadataUrl settings) then cfg_metadataUrl settings
          else if present (cfg_authority settings) then
            (let url = str (cfg_authority settings);
                 url = (if last url \<noteq> CHR ''/'' then url @ ''/'' else url)
             in Some (url @ OidcMetadataUrlPath))
          else None),
       ms_signingKeys =
         (if truthy (cfg_signingKeys settings) then cfg_signingKeys settings else JNull),
       ms_metadata =
         (case cfg_metadata settings of Some m \<Rightarrow> Some m | None \<Rightarrow> None),
       requests = [] \<rparr>"

definition resetSigningKeys :: "MetadataService \<Rightarrow> MetadataService" where
  "resetSigningKeys ms = ms\<lparr>ms_signingKeys := JNull\<rparr>"

text \<open>
  \<^verbatim>\<open>getMetadata\<close>, run from its first line to its last with no other call of the instance
  in between. The cache is tested before the request and written after its answer; what
  calls that overlap do is the subject of the two halves defined further down.
\<close>

definition getMetadata ::
  "Collaborators \<Rightarrow> Settings \<Rightarrow> MetadataService \<Rightarrow> (error + claims) \<times> MetadataService" where
  "getMetadata env settings ms =
     (case ms_metadata ms of
        Some m \<Rightarrow> (Inr m, ms)
      | None \<Rightarrow>
          if \<not> present (ms_metadataUrl ms) then (Inl NoMetadataUrl, ms)
          else
            (let url = JStr (str (ms_metadataUrl ms));
                 ms1 = ms\<lparr>requests := requests ms @ [GetJson url]\<rparr>
             in case c_getJson env (length (requests ms)) url of
                  Inl e \<Rightarrow> (Inl e, ms1)
                | Inr metadata \<Rightarrow>
                    (let seed = (case cfg_metadataSeed settings of Some sd \<Rightarrow> sd | None \<Rightarrow> []);
                         m = object_assign (object_assign [] (JObj seed)) metadata
                     in (Inr m, ms1\<lparr>ms_metadata := Some m\<rparr>))))"

definition getMetadataProperty ::
  "Collaborators \<Rightarrow> Settings \<Rightarrow> string \<Rightarrow> bool \<Rightarrow> MetadataService \<Rightarrow>
   (error + json) \<times> MetadataService" where
  "getMetadataProperty env settings name optional ms =
     (case getMetadata env settings ms of
        (Inl e, ms1) \<Rightarrow> (Inl e, ms1)
      | (Inr metadata, ms1) \<Rightarrow>
          if get_prop metadata name = JUndefined then
            (if optional then (Inr JUndefined, ms1)
             else (Inl (MissingMetadataProperty name), ms1))
          else (Inr (get_prop metadata name), ms1))"

definition getIssuer ::
  "Collaborators \<Rightarrow> Settings \<Rightarrow> MetadataService \<Rightarrow> (error + json) \<times> MetadataService" where
  "getIssuer env settings ms = getMetadataProperty env settings ''issuer'' False ms"

definition getAuthorizationEndpoint ::
  "Collaborators \<Rightarrow> Settings \<Rightarrow> MetadataService \<Rightarrow> (error + json) \<times> MetadataService" where
  "getAuthorizationEndpoint env settings ms =
     getMetadataProperty env settings ''authorization_endpoint'' False ms"

definition getUserInfoEndpoint ::
  "Collaborators \<Rightarrow> Settings \<Rightarrow> MetadataService \<Rightarrow> (error + json) \<times> MetadataService" where
  "getUserInfoEndpoint env settings ms =
     getMetadataProperty env settings ''userinfo_endpoint'' False ms"

definition getTokenEndpoint ::
  "Collaborators \<Rightarrow> Settings \<Rightarrow> bool \<Rightarrow> MetadataService \<Rightarrow> (error + json) \<times> MetadataService" where
  "getTokenEndpoint env settings optional ms =
     getMetadataProperty env settings ''token_endpoint'' optional ms"

definition getKeysEndpoint ::
  "Collaborators \<Rightarrow> Settings \<Rightarrow> bool \<Rightarrow> MetadataService \<Rightarrow> (error + json) \<times> MetadataService" where
  "getKeysEndpoint env settings optional ms =
     getMetadataProperty env settings ''jwks_uri'' optional ms"

definition getSigningKeys ::
  "Collaborators \<Rightarrow> Settings \<Rightarrow> MetadataService \<Rightarrow> (error + json) \<times> MetadataService" where
  "getSigningKeys env settings ms =
     (if truthy (ms_signingKeys ms) then (Inr (ms_signingKeys ms), ms)
      else
        case getKeysEndpoint env settings False ms of
          (Inl e, ms1) \<Rightarrow> (Inl e, ms1)
        | (Inr jwks_uri, ms1) \<Rightarrow>
            (let ms2 = ms1\<lparr>requests := requests ms1 @ [GetJson jwks_uri]\<rparr>
             in case c_getJson env (length (requests ms1)) jwks_uri of
                  Inl e \<Rightarrow> (Inl e, ms2)
                | Inr keySet \<Rightarrow>
                    (case member keySet ''keys'' of
                       Inl e \<Rightarrow> (Inl e, ms2)
                     | Inr keys \<Rightarrow>
                         if \<not> truthy keys then (Inl MissingKeys, ms2)
                         else (Inr keys, ms2\<lparr>ms_signingKeys := keys\<rparr>))))"

subsection \<open>The life of an instance\<close>

text \<open>
  The operations by which a \<^verbatim>\<open>MetadataService\<close> is used (the validator too reaches it
  through them only); a life of the instance is a sequence of such calls.
\<close>

datatype service_call =
    GetMetadata
  | GetMetadataProperty string bool
  | GetSigningKeys
  | ResetSigningKeys

fun service_step ::
  "Collaborators \<Rightarrow> Settings \<Rightarrow> MetadataService \<Rightarrow> service_call \<Rightarrow> MetadataService" where
  "service_step env settings ms GetMetadata = snd (getMetadata env settings ms)"
| "service_step env settings ms (GetMetadataProperty name optional) =
     snd (getMetadataProperty env settings name optional ms)"
| "service_step env settings ms GetSigningKeys = snd (getSigningKeys env settings ms)"
| "service_step env settings ms ResetSigningKeys = resetSigningKeys ms"

definition service_run ::
  "Collaborators \<Rightarrow> Settings \<Rightarrow> service_call list \<Rightarrow> MetadataService \<Rightarrow> MetadataService" where
  "service_run env settings calls ms = foldl (service_step env settings) ms calls"

subsection \<open>Calls that overlap\<close>

text \<open>
  \<^verbatim>\<open>getMetadata\<close> suspends at \<^verbatim>\<open>await this._jsonService.getJson(this._metadataUrl)\<close>: the
  cache test, the URL test and the request come before, the merge with the seed and the
  cache write after. A call that starts while another is suspended there sees the state
  that the first half left. The first half yields the outcome when the call ends in it
  and \<open>None\<close> when it awaits the answer; the second half takes the answer.
\<close>

definition getMetadata_request ::
  "MetadataService \<Rightarrow> (error + claims) option \<times> MetadataService" where
  "getMetadata_request ms =
     (case ms_metadata ms of
        Some m \<Rightarrow> (Some (Inr m), ms)
      | None \<Rightarrow>
          if \<not> present (ms_metadataUrl ms) then (Some (Inl NoMetadataUrl), ms)
          else (None, ms\<lparr>requests := requests ms @ [GetJson (JStr (str (ms_metadataUrl ms)))]\<rparr>))"

definition getMetadata_response ::
  "Settings \<Rightarrow> error + json \<Rightarrow> MetadataService \<Rightarrow> (error + claims) \<times> MetadataService" where
  "getMetadata_response settings answer ms =
     (case answer of
        Inl e \<Rightarrow> (Inl e, ms)
      | Inr metadata \<Rightarrow>
          (let seed = (case cfg_metadataSeed settings of Some sd \<Rightarrow> sd | None \<Rightarrow> []);
               m = object_assign (object_assign [] (JObj seed)) metadata
           in (Inr m, ms\<lparr>ms_metadata := Some m\<rparr>)))"

text \<open>
  Likewise \<^verbatim>\<open>getSigningKeys\<close>, once it has the \<^verbatim>\<open>jwks_uri\<close>, sends its request, suspends,
  and stores the keys of the answer.
\<close>

definition getSigningKeys_request :: "json \<Rightarrow> MetadataService \<Rightarrow> MetadataService" where
  "getSigningKeys_request jwks_uri ms = ms\<lparr>requests := requests ms @ [GetJson jwks_uri]\<rparr>"

definition getSigningKeys_response ::
  "error + json \<Rightarrow> MetadataService \<Rightarrow> (error + json) \<times> MetadataService" where
  "getSigningKeys_response answer ms =
     (case answer of
        Inl e \<Rightarrow> (Inl e, ms)
      | Inr keySet \<Rightarrow>
          (case member keySet ''keys'' of
             Inl e \<Rightarrow> (Inl e, ms)
           | Inr keys \<Rightarrow>
               if \<not> truthy keys then (Inl MissingKeys, ms)
               else (Inr keys, ms\<lparr>ms_signingKeys := keys\<rparr>)))"

text \<open>
  What can happen to an instance, one uninterrupted stretch of code at a time: a call
  that runs to its end, the first half of a \<^verbatim>\<open>getMetadata\<close> call, the arrival of the
  answer to such a call, and the same two for the key set. A life of the instance in
  which calls overlap is a sequence of these.
\<close>

datatype service_event =
    Complete service_call
  | MetadataRequested
  | MetadataAnswered "error + json"
  | KeysRequested json
  | KeysAnswered "error + json"

fun service_event_step ::
  "Collaborators \<Rightarrow> Settings \<Rightarrow> MetadataService \<Rightarrow> service_event \<Rightarrow> MetadataService" where
  "service_event_step env settings ms (Complete call) = service_step env settings ms call"
| "service_event_step env settings ms MetadataRequested = snd (getMetadata_request ms)"
| "service_event_step env settings ms (MetadataAnswered answer) =
     snd (getMetadata_response settings answer ms)"
| "service_event_step env settings ms (KeysRequested jwks_uri) = getSigningKeys_request jwks_uri ms"
| "service_event_step env settings ms (KeysAnswered answer) =
     snd (getSigningKeys_response answer ms)"

definition service_trace ::
  "Collaborators \<Rightarrow> Settings \<Rightarrow> service_event list \<Rightarrow> MetadataService \<Rightarrow> MetadataService" where
  "service_trace env settings events ms = foldl (service_event_step env settings) ms events"

section \<open>\<^verbatim>\<open>ResponseValidator.ts\<close>\<close>

text \<open>
  The response is one object that every stage mutates and returns. A stage yields the
  failure it raised, if any, and the response as it then stands, which is what the
  caller still holds after a failure; the asynchronous stages yield the state of the
  metadata service as well.
\<close>

definition ProtocolClaims :: "string list" where
  "ProtocolClaims =
     [''nonce'', ''at_hash'', ''iat'', ''nbf'', ''exp'', ''aud'', ''iss'', ''c_hash'']"

definition validateSignoutResponse ::
  "'a State_scheme \<Rightarrow> SignoutResponse \<Rightarrow> error option \<times> SignoutResponse" where
  "validateSignoutResponse state response =
     (if \<not> strict_eq (JStr (st_id state)) (so_state response)
      then (Some StateDoesNotMatch, response)
      else
        (let response = response\<lparr>so_state := st_data state\<rparr>
         in if present (so_error response)
            then (Some (ErrorResponse (so_error response) (so_error_description response)
                          (so_error_uri response) (so_state response)), response)
            else (None, response)))"

definition processSigninParams ::
  "Settings \<Rightarrow> SigninState \<Rightarrow> SigninResponse \<Rightarrow> error option \<times> SigninResponse" where
  "processSigninParams settings state response =
     (if \<not> strict_eq (JStr (st_id state)) (r_state response)
      then (Some StateDoesNotMatch, response)
      else if \<not> present (st_client_id state) then (Some NoClientIdOnState, response)
      else if \<not> present (st_authority state) then (Some NoAuthorityOnState, response)
      else if cfg_authority settings \<noteq> st_authority state
      then (Some AuthorityMismatch, response)
      else if present (cfg_client_id settings) \<and> cfg_client_id settings \<noteq> st_client_id state
      then (Some ClientIdMismatch, response)
      else
        (let response = response\<lparr>r_state := st_data state\<rparr>
         in if present (r_error response)
            then (Some (ErrorResponse (r_error response) (r_error_description response)
                          (r_error_uri response) (r_state response)), response)
            else if present (st_nonce state) \<and> \<not> present (r_id_token response)
            then (Some NoIdTokenInResponse, response)
            else if \<not> present (st_nonce state) \<and> present (r_id_token response)
            then (Some UnexpectedIdTokenInResponse, response)
            else if present (st_code_verifier state) \<and> \<not> present (r_code response)
            then (Some NoCodeInResponse, response)
            else if \<not> present (st_code_verifier state) \<and> present (r_code response)
            then (Some UnexpectedCodeInResponse, response)
            else if \<not> present (r_scope response)
            then (None, response\<lparr>r_scope := st_scope state\<rparr>)
            else (None, response)))"

definition profile_value :: "claims option \<Rightarrow> json" where
  "profile_value p = (case p of None \<Rightarrow> JUndefined | Some c \<Rightarrow> JObj c)"

definition filterProtocolClaims :: "Settings \<Rightarrow> json \<Rightarrow> claims" where
  "filterProtocolClaims settings claims =
     (let result = object_assign [] claims
      in if cfg_filterProtocolClaims settings
         then fold (\<lambda>type result. delete_prop result type) ProtocolClaims result
         else result)"

definition processClaims ::
  "Collaborators \<Rightarrow> Settings \<Rightarrow> SigninState \<Rightarrow> SigninResponse \<Rightarrow> MetadataService \<Rightarrow>
   error option \<times> SigninResponse \<times> MetadataService" where
  "processClaims env settings state response ms =
     (if c_isOpenIdConnect env response then
        (let profile = filterProtocolClaims settings (profile_value (r_profile response));
             response = response\<lparr>r_profile := Some profile\<rparr>
         in if st_skipUserInfo state \<noteq> Some True \<and> cfg_loadUserInfo settings
               \<and> present (r_access_token response)
            then
              (let ms1 = ms\<lparr>requests := requests ms @ [GetClaims (str (r_access_token response))]\<rparr>
               in case c_getClaims env (length (requests ms)) (str (r_access_token response)) of
                    Inl e \<Rightarrow> (Some e, response, ms1)
                  | Inr claims \<Rightarrow>
                      (case member claims ''sub'' of
                         Inl e \<Rightarrow> (Some e, response, ms1)
                       | Inr sub \<Rightarrow>
                           if \<not> strict_eq sub (get_prop profile ''sub'')
                           then (Some SubMismatch, response, ms1)
                           else (None,
                                 response\<lparr>r_profile :=
                                   Some (mergeClaims (cfg_mergeClaims settings) (JObj profile) claims)\<rparr>,
                                 ms1)))
            else (None, response, ms))
      else (None, response, ms))"

definition validateIdTokenAttributes ::
  "Collaborators \<Rightarrow> Settings \<Rightarrow> SigninState \<Rightarrow> SigninResponse \<Rightarrow> string \<Rightarrow> MetadataService \<Rightarrow>
   error option \<times> SigninResponse \<times> MetadataService" where
  "validateIdTokenAttributes env settings state response id_token ms =
     (case getIssuer env settings ms of
        (Inl e, ms1) \<Rightarrow> (Some e, response, ms1)
      | (Inr issuer, ms1) \<Rightarrow>
          (let audience = st_client_id state;
               clockSkewInSeconds = cfg_clockSkewInSeconds settings;
               now = c_getEpochTime env (length (requests ms1))
           in case c_validateJwtAttributes env id_token issuer audience clockSkewInSeconds now of
                Inl e \<Rightarrow> (Some e, response, ms1)
              | Inr payload \<Rightarrow>
                  if present (st_nonce state)
                     \<and> \<not> strict_eq (json_of (st_nonce state)) (get_prop payload ''nonce'')
                  then (Some InvalidNonce, response, ms1)
                  else if \<not> truthy (get_prop payload ''sub'')
                  then (Some NoSubInIdToken, response, ms1)
                  else (None, response\<lparr>r_profile := Some payload\<rparr>, ms1)))"

text \<open>
  \<^verbatim>\<open>keys.filter(key => key[name] === v)\<close> on a value of type \<^verbatim>\<open>any\<close>: a TypeError when
  \<^verbatim>\<open>keys\<close> is no array or when an element is \<^verbatim>\<open>null\<close>.
\<close>

fun filter_members :: "string \<Rightarrow> json \<Rightarrow> json list \<Rightarrow> error + json list" where
  "filter_members name v [] = Inr []"
| "filter_members name v (key # keys) =
     (case member key name of
        Inl e \<Rightarrow> Inl e
      | Inr w \<Rightarrow>
          (case filter_members name v keys of
             Inl e \<Rightarrow> Inl e
           | Inr ks \<Rightarrow> Inr (if strict_eq w v then key # ks else ks)))"

fun js_filter :: "string \<Rightarrow> json \<Rightarrow> json \<Rightarrow> error + json list" where
  "js_filter name v (JArr keys) = filter_members name v keys"
| "js_filter name v keys = Inl TypeError"

definition startsWith :: "string \<Rightarrow> string \<Rightarrow> bool" where
  "startsWith s p = (take (length p) s = p)"

text \<open>The key type that \<^verbatim>\<open>_filterByAlg\<close> looks for, \<open>None\<close> for an unsupported algorithm.\<close>

definition kty_of_alg :: "string \<Rightarrow> string option" where
  "kty_of_alg alg =
     (if startsWith alg ''RS'' then Some ''RSA''
      else if startsWith alg ''PS'' then Some ''PS''
      else if startsWith alg ''ES'' then Some ''EC''
      else None)"

definition filterByAlg :: "json \<Rightarrow> string option \<Rightarrow> error + json list" where
  "filterByAlg keys alg =
     (case alg of
        None \<Rightarrow> Inl TypeError
      | Some a \<Rightarrow>
          (case kty_of_alg a of
             None \<Rightarrow> Inr []
           | Some kty \<Rightarrow> js_filter ''kty'' (JStr kty) keys))"

text \<open>\<^verbatim>\<open>keys[0] ?? null\<close>.\<close>

fun first_or_null :: "json list \<Rightarrow> json" where
  "first_or_null [] = JNull"
| "first_or_null (k # ks) = (if k = JUndefined then JNull else k)"

definition getSigningKeyForJwt ::
  "Collaborators \<Rightarrow> Settings \<Rightarrow> Jwt \<Rightarrow> MetadataService \<Rightarrow> (error + json) \<times> MetadataService" where
  "getSigningKeyForJwt env settings jwt ms =
     (case getSigningKeys env settings ms of
        (Inl e, ms1) \<Rightarrow> (Inl e, ms1)
      | (Inr keys, ms1) \<Rightarrow>
          if \<not> truthy keys then (Inl NoSigningKeys, ms1)
          else
            (case jwt_header jwt of
               None \<Rightarrow> (Inl TypeError, ms1)
             | Some header \<Rightarrow>
                 if present (h_kid header) then
                   (case js_filter ''kid'' (json_of (h_kid header)) keys of
                      Inl e \<Rightarrow> (Inl e, ms1)
                    | Inr ks \<Rightarrow> (Inr (first_or_null ks), ms1))
                 else
                   (case filterByAlg keys (h_alg header) of
                      Inl e \<Rightarrow> (Inl e, ms1)
                    | Inr ks \<Rightarrow>
                        (case ks of
                           [key] \<Rightarrow> (Inr key, ms1)
                         | _ \<Rightarrow> (Inr JNull, ms1)))))"

definition getSigningKeyForJwtWithSingleRetry ::
  "Collaborators \<Rightarrow> Settings \<Rightarrow> Jwt \<Rightarrow> MetadataService \<Rightarrow> (error + json) \<times> MetadataService" where
  "getSigningKeyForJwtWithSingleRetry env settings jwt ms =
     (case getSigningKeyForJwt env settings jwt ms of
        (Inl e, ms1) \<Rightarrow> (Inl e, ms1)
      | (Inr key, ms1) \<Rightarrow>
          if truthy key then (Inr key, ms1)
          else getSigningKeyForJwt env settings jwt (resetSigningKeys ms1))"

definition validateIdToken ::
  "Collaborators \<Rightarrow> Settings \<Rightarrow> SigninState \<Rightarrow> SigninResponse \<Rightarrow> string \<Rightarrow> MetadataService \<Rightarrow>
   error option \<times> SigninResponse \<times> MetadataService" where
  "validateIdToken env settings state response id_token ms =
     (if \<not> present (st_nonce state) then (Some NoNonceOnState, response, ms)
      else
        case c_parseJwt env id_token of
          None \<Rightarrow> (Some FailedToParseIdToken, response, ms)
        | Some jwt \<Rightarrow>
            (case jwt_payload jwt of
               None \<Rightarrow> (Some FailedToParseIdToken, response, ms)
             | Some payload \<Rightarrow>
                 if jwt_header jwt = None
                 then (Some FailedToParseIdToken, response, ms)
                 else if \<not> strict_eq (json_of (st_nonce state)) (get_prop payload ''nonce'')
                 then (Some InvalidNonce, response, ms)
                 else
                   (case getIssuer env settings ms of
                      (Inl e, ms1) \<Rightarrow> (Some e, response, ms1)
                    | (Inr issuer, ms1) \<Rightarrow>
                        (case getSigningKeyForJwtWithSingleRetry env settings jwt ms1 of
                           (Inl e, ms2) \<Rightarrow> (Some e, response, ms2)
                         | (Inr key, ms2) \<Rightarrow>
                             if \<not> truthy key then (Some NoMatchingKey, response, ms2)
                             else
                               (let audience = st_client_id state;
                                    clockSkewInSeconds = cfg_clockSkewInSeconds settings
                                in case c_validateJwt env id_token key issuer audience
                                          clockSkewInSeconds of
                                     Some e \<Rightarrow> (Some e, response, ms2)
                                   | None \<Rightarrow>
                                       if \<not> truthy (get_prop payload ''sub'')
                                       then (Some NoSubInIdToken, response, ms2)
                                       else (None, response\<lparr>r_profile := Some payload\<rparr>, ms2))))))"

definition validateAccessToken ::
  "Collaborators \<Rightarrow> SigninResponse \<Rightarrow> string \<Rightarrow> error option \<times> SigninResponse" where
  "validateAccessToken env response access_token =
     (case r_profile response of
        None \<Rightarrow> (Some NoProfile, response)
      | Some profile \<Rightarrow>
          if \<not> truthy (get_prop profile ''at_hash'') then (Some NoAtHash, response)
          else if \<not> present (r_id_token response) then (Some NoIdToken, response)
          else
            (case c_parseJwt env (str (r_id_token response)) of
               None \<Rightarrow> (Some FailedToParseIdToken, response)
             | Some jwt \<Rightarrow>
                 (case jwt_header jwt of
                    None \<Rightarrow> (Some FailedToParseIdToken, response)
                  | Some header \<Rightarrow>
                      (let hashAlg = h_alg header
                       in if \<not> present hashAlg \<or> length (str hashAlg) \<noteq> 5
                          then (Some (UnsupportedAlg hashAlg), response)
                          else
                            (let hashBitsString = take 3 (drop 2 (str hashAlg))
                             in if hashBitsString = []
                                then (Some (UnsupportedAlg hashAlg), response)
                                else
                                  (case parseInt hashBitsString of
                                     None \<Rightarrow> (Some (UnsupportedAlg hashAlg), response)
                                   | Some hashBits \<Rightarrow>
                                       if hashBits \<noteq> 256 \<and> hashBits \<noteq> 384 \<and> hashBits \<noteq> 512
                                       then (Some (UnsupportedAlg hashAlg), response)
                                       else
                                         (let sha = ''sha'' @ string_of_int hashBits;
                                              hash = c_hashString env access_token sha
                                          in if \<not> present hash then (Some AtHashFailed, response)
                                             else
                                               (let left = take (length (str hash) div 2) (str hash);
                                                    left_b64u = c_hexToBase64Url env left
                                                in if \<not> strict_eq (JStr left_b64u)
                                                         (get_prop profile ''at_hash'')
                                                   then (Some AtHashFailed, response)
                                                   else (None, response)))))))))"

text \<open>The request that \<^verbatim>\<open>_processCode\<close> builds for the token endpoint.\<close>

definition exchange_request :: "SigninState \<Rightarrow> SigninResponse \<Rightarrow> claims" where
  "exchange_request state response =
     (let request =
            [(''client_id'', json_of (st_client_id state)),
             (''client_secret'', json_of (st_client_secret state)),
             (''code'', json_of (r_code response)),
             (''redirect_uri'', json_of (st_redirect_uri state)),
             (''code_verifier'', json_of (js_or (st_code_verifier state) (Some [])))]
      in case st_extraTokenParams state of
           Some extra \<Rightarrow> object_assign request (JObj extra)
         | None \<Rightarrow> request)"

text \<open>The block of \<^verbatim>\<open>_processCode\<close> that folds the token endpoint's answer into the response.\<close>

definition merge_token_response :: "TokenResponse \<Rightarrow> SigninResponse \<Rightarrow> SigninResponse" where
  "merge_token_response tokenResponse response =
     response
       \<lparr>r_error := js_or (tr_error tokenResponse) (r_error response),
        r_error_description :=
          js_or (tr_error_description tokenResponse) (r_error_description response),
        r_error_uri := js_or (tr_error_uri tokenResponse) (r_error_uri response),
        r_id_token := js_or (tr_id_token tokenResponse) (r_id_token response),
        r_session_state := js_or (tr_session_state tokenResponse) (r_session_state response),
        r_access_token := js_or (tr_access_token tokenResponse) (r_access_token response),
        r_token_type := js_or (tr_token_type tokenResponse) (r_token_type response),
        r_scope := js_or (tr_scope tokenResponse) (r_scope response),
        r_expires_in :=
          (case parseInt (to_string (tr_expires_in tokenResponse)) of
             None \<Rightarrow> r_expires_in response
           | Some n \<Rightarrow> if n \<noteq> 0 then Some n else r_expires_in response)\<rparr>"

definition processCode ::
  "Collaborators \<Rightarrow> Settings \<Rightarrow> SigninState \<Rightarrow> SigninResponse \<Rightarrow> MetadataService \<Rightarrow>
   error option \<times> SigninResponse \<times> MetadataService" where
  "processCode env settings state response ms =
     (let request = exchange_request state response;
          ms1 = ms\<lparr>requests := requests ms @ [ExchangeCode request]\<rparr>
      in case c_exchangeCode env (length (requests ms)) request of
           Inl e \<Rightarrow> (Some e, response, ms1)
         | Inr tokenResponse \<Rightarrow>
             (let response = merge_token_response tokenResponse response
              in if present (r_id_token response)
                 then validateIdTokenAttributes env settings state response
                        (str (r_id_token response)) ms1
                 else (None, response, ms1)))"

definition validateTokens ::
  "Collaborators \<Rightarrow> Settings \<Rightarrow> SigninState \<Rightarrow> SigninResponse \<Rightarrow> MetadataService \<Rightarrow>
   error option \<times> SigninResponse \<times> MetadataService" where
  "validateTokens env settings state response ms =
     (if present (r_code response) then processCode env settings state response ms
      else if present (r_id_token response) then
        (if present (r_access_token response) then
           (let access_token = str (r_access_token response)
            in case validateIdToken env settings state response (str (r_id_token response)) ms of
                 (Some e, response1, ms1) \<Rightarrow> (Some e, response1, ms1)
               | (None, response1, ms1) \<Rightarrow>
                   (case validateAccessToken env response1 access_token of
                      (r, response2) \<Rightarrow> (r, response2, ms1)))
         else validateIdToken env settings state response (str (r_id_token response)) ms)
      else (None, response, ms))"

definition validateSigninResponse ::
  "Collaborators \<Rightarrow> Settings \<Rightarrow> SigninState \<Rightarrow> SigninResponse \<Rightarrow> MetadataService \<Rightarrow>
   error option \<times> SigninResponse \<times> MetadataService" where
  "validateSigninResponse env settings state response ms =
     (case processSigninParams settings state response of
        (Some e, response1) \<Rightarrow> (Some e, response1, ms)
      | (None, response1) \<Rightarrow>
          (case validateTokens env settings state response1 ms of
             (Some e, response2, ms1) \<Rightarrow> (Some e, response2, ms1)
           | (None, response2, ms1) \<Rightarrow> processClaims env settings state response2 ms1))"


text \<open>An object, as opposed to a primitive value or an array.\<close>

fun is_object :: "json \<Rightarrow> bool" where
  "is_object (JObj ps) = True"
| "is_object v = False"



section \<open>A sample configuration\<close>

text \<open>
  A code-flow request against \<^verbatim>\<open>https://idp.example\<close> with statically configured
  metadata, used to run the validator on concrete inputs.
\<close>

definition example_settings :: Settings where
  "example_settings =
     \<lparr> cfg_authority = Some ''https://idp.example'',
       cfg_metadataUrl = None,
       cfg_metadata = Some [(''issuer'', JStr ''https://idp.example''),
                            (''jwks_uri'', JStr ''https://idp.example/jwks'')],
       cfg_metadataSeed = None,
       cfg_signingKeys = JUndefined,
       cfg_client_id = Some ''app'',
       cfg_clockSkewInSeconds = 300,
       cfg_filterProtocolClaims = True,
       cfg_loadUserInfo = True,
       cfg_mergeClaims = False \<rparr>"

definition example_state :: SigninState where
  "example_state =
     \<lparr> st_id = ''s1'', st_data = JStr ''app-data'',
       st_client_id = Some ''app'',
       st_authority = Some ''https://idp.example'',
       st_nonce = None,
       st_code_verifier = Some ''verifier'',
       st_redirect_uri = Some ''https://app.example/cb'',
       st_scope = Some ''openid'',
       st_client_secret = None,
       st_extraTokenParams = None,
       st_skipUserInfo = None \<rparr>"

definition example_response :: SigninResponse where
  "example_response =
     \<lparr> r_state = JStr ''s1'', r_code = Some ''c0de'', r_error = None,
       r_error_description = None, r_error_uri = None, r_id_token = None,
       r_session_state = None, r_access_token = None, r_token_type = None,
       r_scope = None, r_expires_in = None, r_profile = None \<rparr>"

definition example_token_response :: TokenResponse where
  "example_token_response =
     \<lparr> tr_error = None, tr_error_description = None, tr_error_uri = None,
       tr_id_token = Some ''header.payload.signature'', tr_session_state = None,
       tr_access_token = Some ''token'', tr_token_type = Some ''Bearer'',
       tr_scope = None, tr_expires_in = JNum 3600 \<rparr>"

definition example_env :: Collaborators where
  "example_env =
     \<lparr> c_getJson = (\<lambda>n url. Inl (CollaboratorError ''network'')),
       c_exchangeCode = (\<lambda>n request. Inr example_token_response),
       c_getClaims = (\<lambda>n token. Inr (JObj [(''sub'', JStr ''xyz'')])),
       c_parseJwt = (\<lambda>token. Some \<lparr> jwt_header = Some \<lparr> h_alg = Some ''RS256'', h_kid = None \<rparr>,
                                   jwt_payload = Some [(''sub'', JStr ''abc'')] \<rparr>),
       c_validateJwtAttributes = (\<lambda>token issuer audience skew now. Inr [(''sub'', JStr ''abc'')]),
       c_validateJwt = (\<lambda>token key issuer audience skew. None),
       c_hashString = (\<lambda>v alg. Some ''00112233445566778899aabbccddeeff''),
       c_hexToBase64Url = (\<lambda>hex. hex),
       c_getEpochTime = (\<lambda>n. 1000),
       c_isOpenIdConnect = (\<lambda>response. present (r_id_token response)) \<rparr>"

definition example_signout_response :: SignoutResponse where
  "example_signout_response =
     \<lparr> so_state = JStr ''s1'', so_error = None, so_error_description = None, so_error_uri = None \<rparr>"

text \<open>An implicit-flow response whose profile binds the access token.\<close>

definition example_implicit :: SigninResponse where
  "example_implicit =
     example_response
       \<lparr>r_code := None, r_id_token := Some ''header.payload.signature'',
        r_access_token := Some ''token'',
        r_profile := Some [(''sub'', JStr ''abc''), (''at_hash'', JStr ''0011223344556677'')]\<rparr>"

text \<open>A configuration with a seed and no static metadata, and a provider that answers.\<close>

definition example_seeded_settings :: Settings where
  "example_seeded_settings =
     example_settings
       \<lparr>cfg_metadata := None,
        cfg_metadataSeed := Some [(''issuer'', JStr ''https://seed.example''),
                                  (''token_endpoint'', JStr ''https://idp.example/token'')]\<rparr>"

definition example_discovery_env :: Collaborators where
  "example_discovery_env =
     example_env
       \<lparr>c_getJson := (\<lambda>n url.
          if url = JStr ''https://idp.example/.well-known/openid-configuration''
          then Inr (JObj [(''issuer'', JStr ''https://idp.example''),
                          (''jwks_uri'', JStr ''https://idp.example/jwks'')])
          else Inl (CollaboratorError ''network''))\<rparr>"

text \<open>
  A cached key set, the key set published after a rotation, and a provider that serves
  the latter.
\<close>

definition example_keys :: "json list" where
  "example_keys =
     [JObj [(''kid'', JStr ''k1''), (''kty'', JStr ''RSA'')],
      JObj [(''kid'', JStr ''k2''), (''kty'', JStr ''EC'')]]"

definition example_rotated_keys :: "json list" where
  "example_rotated_keys =
     [JObj [(''kid'', JStr ''k3''), (''kty'', JStr ''RSA'')],
      JObj [(''kid'', JStr ''k2''), (''kty'', JStr ''EC'')]]"

definition example_jwt :: "string option \<Rightarrow> string option \<Rightarrow> Jwt" where
  "example_jwt kid alg =
     \<lparr> jwt_header = Some \<lparr> h_alg = alg, h_kid = kid \<rparr>,
       jwt_payload = Some [(''sub'', JStr ''abc''), (''nonce'', JStr ''n0nce'')] \<rparr>"

definition example_keys_env :: Collaborators where
  "example_keys_env =
     example_env
       \<lparr>c_getJson := (\<lambda>n url.
          if url = JStr ''https://idp.example/jwks''
          then Inr (JObj [(''keys'', JArr example_rotated_keys)])
          else Inl (CollaboratorError ''network'')),
        c_parseJwt := (\<lambda>token. Some (example_jwt (Some token) (Some ''RS256'')))\<rparr>"

definition example_keys_service :: MetadataService where
  "example_keys_service =
     new_MetadataService (example_settings\<lparr>cfg_signingKeys := JArr example_keys\<rparr>)"

text \<open>
  An instance without configured keys, and a provider that rotates its keys after the
  first request.
\<close>

definition example_cold_service :: MetadataService where
  "example_cold_service = new_MetadataService example_settings"

definition example_rotating_env :: Collaborators where
  "example_rotating_env =
     example_keys_env
       \<lparr>c_getJson := (\<lambda>n url.
          if url = JStr ''https://idp.example/jwks''
          then Inr (JObj [(''keys'', JArr (if n = 0 then example_keys else example_rotated_keys))])
          else Inl (CollaboratorError ''network''))\<rparr>"

section \<open>Properties of the claim merge\<close>





lemma set_prop_fresh: "name \<notin> fst ` set r \<Longrightarrow> set_prop r name v = r @ [(name, v)]"
  by (induction r) auto

lemma assign_props_append:
  "distinct (map fst (t @ ps)) \<Longrightarrow> assign_props t ps = t @ ps"
proof (induction ps arbitrary: t)
  case Nil
  then show ?case by simp
next
  case (Cons p ps)
  obtain k v where p: "p = (k, v)" by (cases p)
  from Cons.prems p have "k \<notin> fst ` set t" by auto
  then have s: "set_prop t k v = t @ [(k, v)]" by (rule set_prop_fresh)
  from Cons.prems p have "distinct (map fst ((t @ [(k, v)]) @ ps))" by auto
  from Cons.IH [OF this] show ?case using p s by simp
qed

lemma object_assign_copy: "distinct (map fst ps) \<Longrightarrow> object_assign [] (JObj ps) = ps"
  using assign_props_append [of "[]" ps] by (simp add: object_assign_def)









section \<open>Correlation and parameter checks\<close>

lemma strict_eq_JStr: "strict_eq (JStr s) b = (b = JStr s)"
  by auto

lemma signin_state_mismatch:
  "r_state response \<noteq> JStr (st_id state) \<Longrightarrow>
   validateSigninResponse env settings state response ms = (Some StateDoesNotMatch, response, ms)"
  by (simp add: validateSigninResponse_def processSigninParams_def strict_eq_JStr)

lemma signout_state_mismatch:
  "so_state response \<noteq> JStr (st_id state) \<Longrightarrow>
   validateSignoutResponse state response = (Some StateDoesNotMatch, response)"
  by (simp add: validateSignoutResponse_def strict_eq_JStr)


text \<open>
  C1. When \<^verbatim>\<open>response.state\<close> differs from \<^verbatim>\<open>state.id\<close>, sign-in validation and
  sign-out validation fail with the state-mismatch error. The response is untouched and,
  for sign-in, the metadata service is in the state it was in: its request log has not
  grown, so no metadata fetch, key fetch, token exchange or user-info fetch was made.
  Sign-out validation has no access to the network at all.
\<close>

theorem state_mismatch_fails_first:
  "(r_state response \<noteq> JStr (st_id state) \<longrightarrow>
      validateSigninResponse env settings state response ms
        = (Some StateDoesNotMatch, response, ms)) \<and>
   (so_state response' \<noteq> JStr (st_id state') \<longrightarrow>
      validateSignoutResponse state' response' = (Some StateDoesNotMatch, response'))"
  using signin_state_mismatch signout_state_mismatch by blast

theorem state_mismatch_fails_first_witness:
  "r_state (example_response\<lparr>r_state := JStr ''forged''\<rparr>) \<noteq> JStr (st_id example_state) \<and>
   so_state (example_signout_response\<lparr>so_state := JStr ''forged''\<rparr>) \<noteq> JStr (st_id example_state) \<and>
   validateSigninResponse example_env example_settings example_state
       (example_response\<lparr>r_state := JStr ''forged''\<rparr>) (new_MetadataService example_settings)
     = (Some StateDoesNotMatch, example_response\<lparr>r_state := JStr ''forged''\<rparr>,
        new_MetadataService example_settings) \<and>
   validateSignoutResponse example_state (example_signout_response\<lparr>so_state := JStr ''forged''\<rparr>)
     = (Some StateDoesNotMatch, example_signout_response\<lparr>so_state := JStr ''forged''\<rparr>)"
  using state_mismatch_fails_first [of "example_response\<lparr>r_state := JStr ''forged''\<rparr>"
      example_state example_env example_settings "new_MetadataService example_settings"
      "example_signout_response\<lparr>so_state := JStr ''forged''\<rparr>" example_state]
  by (simp add: example_response_def example_state_def example_signout_response_def)


text \<open>
  C10. With \<^verbatim>\<open>response.state\<close> equal to \<^verbatim>\<open>state.id\<close>, sign-in validation still fails,
  before any request, when \<^verbatim>\<open>state.client_id\<close> is absent, \<^verbatim>\<open>state.authority\<close> is absent,
  the configured authority differs from the state's, or the configured client id is set
  and differs from the state's; the error is that of the first check that fails.
\<close>

theorem consistency_checks:
  "r_state response = JStr (st_id state) \<Longrightarrow>
   \<not> present (st_client_id state) \<or> \<not> present (st_authority state)
     \<or> cfg_authority settings \<noteq> st_authority state
     \<or> (present (cfg_client_id settings) \<and> cfg_client_id settings \<noteq> st_client_id state) \<Longrightarrow>
   validateSigninResponse env settings state response ms =
     (Some (if \<not> present (st_client_id state) then NoClientIdOnState
            else if \<not> present (st_authority state) then NoAuthorityOnState
            else if cfg_authority settings \<noteq> st_authority state then AuthorityMismatch
            else ClientIdMismatch), response, ms)"
  by (auto simp: validateSigninResponse_def processSigninParams_def strict_eq_JStr)

theorem consistency_checks_witness:
  "r_state example_response = JStr (st_id (example_state\<lparr>st_authority := Some ''https://other.example''\<rparr>)) \<and>
   cfg_authority example_settings \<noteq> st_authority (example_state\<lparr>st_authority := Some ''https://other.example''\<rparr>) \<and>
   validateSigninResponse example_env example_settings
       (example_state\<lparr>st_authority := Some ''https://other.example''\<rparr>) example_response
       (new_MetadataService example_settings)
     = (Some AuthorityMismatch, example_response, new_MetadataService example_settings)"
  using consistency_checks [of example_response
      "example_state\<lparr>st_authority := Some ''https://other.example''\<rparr>" example_settings
      example_env "new_MetadataService example_settings"]
  by (simp add: example_response_def example_state_def example_settings_def present_def)

lemma processSigninParams_presence:
  "present (st_nonce state) \<and> \<not> present (r_id_token response)
   \<or> \<not> present (st_nonce state) \<and> present (r_id_token response)
   \<or> present (st_code_verifier state) \<and> \<not> present (r_code response)
   \<or> \<not> present (st_code_verifier state) \<and> present (r_code response) \<Longrightarrow>
   fst (processSigninParams settings state response) \<noteq> None"
  by (auto simp: processSigninParams_def Let_def)

lemma validateSigninResponse_params_fail:
  "fst (processSigninParams settings state response) \<noteq> None \<Longrightarrow>
   validateSigninResponse env settings state response ms =
     (fst (processSigninParams settings state response),
      snd (processSigninParams settings state response), ms)"
  by (cases "processSigninParams settings state response")
     (auto simp: validateSigninResponse_def)

lemma processSigninParams_checked:
  assumes "r_state response = JStr (st_id state)" "present (st_client_id state)"
    "present (st_authority state)" "cfg_authority settings = st_authority state"
    "present (cfg_client_id settings) \<longrightarrow> cfg_client_id settings = st_client_id state"
    "\<not> present (r_error response)"
  shows "processSigninParams settings state response =
     (if present (st_nonce state) \<and> \<not> present (r_id_token response)
      then (Some NoIdTokenInResponse, response\<lparr>r_state := st_data state\<rparr>)
      else if \<not> present (st_nonce state) \<and> present (r_id_token response)
      then (Some UnexpectedIdTokenInResponse, response\<lparr>r_state := st_data state\<rparr>)
      else if present (st_code_verifier state) \<and> \<not> present (r_code response)
      then (Some NoCodeInResponse, response\<lparr>r_state := st_data state\<rparr>)
      else if \<not> present (st_code_verifier state) \<and> present (r_code response)
      then (Some UnexpectedCodeInResponse, response\<lparr>r_state := st_data state\<rparr>)
      else if \<not> present (r_scope response)
      then (None, response\<lparr>r_state := st_data state, r_scope := st_scope state\<rparr>)
      else (None, response\<lparr>r_state := st_data state\<rparr>))"
proof -
  have c: "(present (cfg_client_id settings) \<and> cfg_client_id settings \<noteq> st_client_id state)
      = False"
    using assms(5) by blast
  show ?thesis
    unfolding processSigninParams_def Let_def
    by (simp add: c assms(1-4,6) strict_eq_JStr split del: if_split cong: if_cong)
qed


text \<open>
  C3. For a correlated sign-in response that carries no error: if \<^verbatim>\<open>state.nonce\<close> is set
  and \<^verbatim>\<open>response.id_token\<close> is absent, or \<^verbatim>\<open>state.nonce\<close> is absent and
  \<^verbatim>\<open>response.id_token\<close> is present, or likewise for \<^verbatim>\<open>state.code_verifier\<close> and
  \<^verbatim>\<open>response.code\<close>, validation fails, before any request. When the consistency checks
  of the state pass, the failure is the one named after the first law that is broken.
  Set and present mean truthy: defined and not the empty string.
\<close>

theorem presence_laws:
  assumes "r_state response = JStr (st_id state)" and "\<not> present (r_error response)"
    and "present (st_nonce state) \<and> \<not> present (r_id_token response)
       \<or> \<not> present (st_nonce state) \<and> present (r_id_token response)
       \<or> present (st_code_verifier state) \<and> \<not> present (r_code response)
       \<or> \<not> present (st_code_verifier state) \<and> present (r_code response)"
  shows "\<exists>e r. validateSigninResponse env settings state response ms = (Some e, r, ms) \<and>
     (present (st_client_id state) \<and> present (st_authority state)
        \<and> cfg_authority settings = st_authority state
        \<and> (present (cfg_client_id settings) \<longrightarrow> cfg_client_id settings = st_client_id state)
      \<longrightarrow> r = response\<lparr>r_state := st_data state\<rparr> \<and>
          e = (if present (st_nonce state) \<and> \<not> present (r_id_token response)
               then NoIdTokenInResponse
               else if \<not> present (st_nonce state) \<and> present (r_id_token response)
               then UnexpectedIdTokenInResponse
               else if present (st_code_verifier state) \<and> \<not> present (r_code response)
               then NoCodeInResponse
               else UnexpectedCodeInResponse))"
proof -
  have fails: "fst (processSigninParams settings state response) \<noteq> None"
    using assms(3) by (rule processSigninParams_presence)
  then obtain e where e: "fst (processSigninParams settings state response) = Some e"
    by auto
  let ?r = "snd (processSigninParams settings state response)"
  have v: "validateSigninResponse env settings state response ms = (Some e, ?r, ms)"
    using validateSigninResponse_params_fail [OF fails] e by simp
  have "?r = response\<lparr>r_state := st_data state\<rparr> \<and>
      e = (if present (st_nonce state) \<and> \<not> present (r_id_token response)
           then NoIdTokenInResponse
           else if \<not> present (st_nonce state) \<and> present (r_id_token response)
           then UnexpectedIdTokenInResponse
           else if present (st_code_verifier state) \<and> \<not> present (r_code response)
           then NoCodeInResponse
           else UnexpectedCodeInResponse)"
    if ok: "present (st_client_id state)" "present (st_authority state)"
      "cfg_authority settings = st_authority state"
      "present (cfg_client_id settings) \<longrightarrow> cfg_client_id settings = st_client_id state"
  proof -
    note p = processSigninParams_checked [OF assms(1) ok assms(2)]
    show ?thesis
    proof (cases "present (st_nonce state) \<and> \<not> present (r_id_token response)")
      case True
      then show ?thesis using e by (simp add: p)
    next
      case a: False
      show ?thesis
      proof (cases "\<not> present (st_nonce state) \<and> present (r_id_token response)")
        case True
        then show ?thesis using e a by (simp add: p)
      next
        case b: False
        show ?thesis
        proof (cases "present (st_code_verifier state) \<and> \<not> present (r_code response)")
          case True
          then show ?thesis using e by (simp add: p a b)
        next
          case c: False
          with a b assms(3) have d: "\<not> present (st_code_verifier state) \<and> present (r_code response)"
            by blast
          show ?thesis using e by (simp add: p a b c d)
        qed
      qed
    qed
  qed
  with v show ?thesis by blast
qed

theorem presence_laws_witness:
  "validateSigninResponse example_env example_settings
       (example_state\<lparr>st_nonce := Some ''n0nce''\<rparr>) example_response
       (new_MetadataService example_settings)
     = (Some NoIdTokenInResponse, example_response\<lparr>r_state := JStr ''app-data''\<rparr>,
        new_MetadataService example_settings) \<and>
   validateSigninResponse example_env example_settings example_state
       (example_response\<lparr>r_id_token := Some ''header.payload.signature''\<rparr>)
       (new_MetadataService example_settings)
     = (Some UnexpectedIdTokenInResponse,
        example_response\<lparr>r_id_token := Some ''header.payload.signature'', r_state := JStr ''app-data''\<rparr>,
        new_MetadataService example_settings) \<and>
   validateSigninResponse example_env example_settings example_state
       (example_response\<lparr>r_code := None\<rparr>) (new_MetadataService example_settings)
     = (Some NoCodeInResponse, example_response\<lparr>r_code := None, r_state := JStr ''app-data''\<rparr>,
        new_MetadataService example_settings) \<and>
   validateSigninResponse example_env example_settings
       (example_state\<lparr>st_code_verifier := None\<rparr>) example_response
       (new_MetadataService example_settings)
     = (Some UnexpectedCodeInResponse, example_response\<lparr>r_state := JStr ''app-data''\<rparr>,
        new_MetadataService example_settings)"
  using
    presence_laws [of example_response "example_state\<lparr>st_nonce := Some ''n0nce''\<rparr>"
      example_env example_settings "new_MetadataService example_settings"]
    presence_laws [of "example_response\<lparr>r_id_token := Some ''header.payload.signature''\<rparr>"
      example_state example_env example_settings "new_MetadataService example_settings"]
    presence_laws [of "example_response\<lparr>r_code := None\<rparr>" example_state
      example_env example_settings "new_MetadataService example_settings"]
    presence_laws [of example_response "example_state\<lparr>st_code_verifier := None\<rparr>"
      example_env example_settings "new_MetadataService example_settings"]
  by (simp add: example_response_def example_state_def example_settings_def present_def)


section \<open>The opaque data on the response\<close>

lemma validateIdTokenAttributes_state:
  "r_state (fst (snd (validateIdTokenAttributes env settings state response id_token ms)))
     = r_state response"
  by (simp add: validateIdTokenAttributes_def Let_def split: prod.splits sum.splits)

lemma validateIdToken_state:
  "r_state (fst (snd (validateIdToken env settings state response id_token ms)))
     = r_state response"
  by (simp add: validateIdToken_def Let_def split: prod.splits sum.splits option.splits)

lemma validateAccessToken_unchanged:
  "snd (validateAccessToken env response access_token) = response"
  unfolding validateAccessToken_def Let_def
  by (simp only: if_distrib [of snd] option.case_distrib [of snd] snd_conv if_cancel
      option.case_eq_if)

lemma merge_token_response_state:
  "r_state (merge_token_response tokenResponse response) = r_state response"
  by (simp add: merge_token_response_def)

lemma processCode_state:
  "r_state (fst (snd (processCode env settings state response ms))) = r_state response"
  by (simp add: processCode_def Let_def validateIdTokenAttributes_state
      merge_token_response_state split: sum.splits)

lemma validateTokens_state:
  "r_state (fst (snd (validateTokens env settings state response ms))) = r_state response"
proof -
  have a: "r_state (fst (snd (case validateIdToken env settings state response t ms of
                 (Some e, response1, ms1) \<Rightarrow> (Some e, response1, ms1)
               | (None, response1, ms1) \<Rightarrow>
                   (case validateAccessToken env response1 a of
                      (r, response2) \<Rightarrow> (r, response2, ms1))))) = r_state response" for t a
  proof (cases "validateIdToken env settings state response t ms")
    case (fields e r1 ms1)
    have r1: "r_state r1 = r_state response"
      using validateIdToken_state [of env settings state response t ms] fields by simp
    obtain e2 r2 where va: "validateAccessToken env r1 a = (e2, r2)"
      by (cases "validateAccessToken env r1 a") auto
    have "r2 = r1" using validateAccessToken_unchanged [of env r1 a] va by simp
    then show ?thesis using fields r1 va by (cases e) simp_all
  qed
  show ?thesis
    by (simp add: validateTokens_def Let_def processCode_state validateIdToken_state a)
qed

lemma processClaims_state:
  "r_state (fst (snd (processClaims env settings state response ms))) = r_state response"
  by (simp add: processClaims_def Let_def split: sum.splits)

lemma processSigninParams_state:
  "r_state response = JStr (st_id state) \<Longrightarrow> present (st_client_id state) \<Longrightarrow>
   present (st_authority state) \<Longrightarrow> cfg_authority settings = st_authority state \<Longrightarrow>
   (present (cfg_client_id settings) \<longrightarrow> cfg_client_id settings = st_client_id state) \<Longrightarrow>
   r_state (snd (processSigninParams settings state response)) = st_data state"
  by (auto simp: processSigninParams_def Let_def)

lemma validateSigninResponse_state:
  "r_state (fst (snd (validateSigninResponse env settings state response ms)))
     = r_state (snd (processSigninParams settings state response))"
proof (cases "processSigninParams settings state response")
  case (Pair e r1)
  show ?thesis
  proof (cases e)
    case None
    obtain e2 r2 ms2 where vt: "validateTokens env settings state r1 ms = (e2, r2, ms2)"
      by (cases "validateTokens env settings state r1 ms") auto
    have r2: "r_state r2 = r_state r1"
      using validateTokens_state [of env settings state r1 ms] vt by simp
    show ?thesis
      using Pair None vt r2 processClaims_state [of env settings state r2 ms2]
      by (cases e2) (simp_all add: validateSigninResponse_def)
  next
    case (Some a)
    then show ?thesis using Pair by (simp add: validateSigninResponse_def)
  qed
qed

subsection \<open>The sample run\<close>

text \<open>
  The sample request passes the parameter checks and the code exchange, and fails on the
  subject of the user-info claims.
\<close>

lemmas example_defs =
  example_env_def example_settings_def example_state_def example_response_def
  example_token_response_def example_signout_response_def

lemma string_of_nat_3600: "string_of_nat 3600 = ''3600''"
  by (simp add: string_of_nat.simps digit_char_def)

lemma parseInt_3600: "parseInt (string_of_int 3600) = Some 3600"
  by (simp add: string_of_int_def string_of_nat_3600 parseInt_def is_white_def digit_value_def
      digits_value_def)

lemma example_params:
  "processSigninParams example_settings example_state example_response
     = (None, example_response\<lparr>r_state := JStr ''app-data'', r_scope := Some ''openid''\<rparr>)"
  by (simp add: processSigninParams_def example_defs present_def)

lemma example_metadata:
  "getMetadata example_env example_settings
      (new_MetadataService example_settings\<lparr>requests := rs\<rparr>)
     = (Inr [(''issuer'', JStr ''https://idp.example''),
             (''jwks_uri'', JStr ''https://idp.example/jwks'')],
        new_MetadataService example_settings\<lparr>requests := rs\<rparr>)"
  by (simp add: getMetadata_def new_MetadataService_def example_settings_def)

lemma example_tokens:
  "validateTokens example_env example_settings example_state
      (example_response\<lparr>r_state := JStr ''app-data'', r_scope := Some ''openid''\<rparr>)
      (new_MetadataService example_settings)
     = (None,
        example_response
          \<lparr>r_state := JStr ''app-data'', r_scope := Some ''openid'',
           r_id_token := Some ''header.payload.signature'', r_access_token := Some ''token'',
           r_token_type := Some ''Bearer'', r_expires_in := Some 3600,
           r_profile := Some [(''sub'', JStr ''abc'')]\<rparr>,
        new_MetadataService example_settings
          \<lparr>requests := [ExchangeCode (exchange_request example_state
              (example_response\<lparr>r_state := JStr ''app-data'', r_scope := Some ''openid''\<rparr>))]\<rparr>)"
proof -
  have m: "merge_token_response example_token_response
        (example_response\<lparr>r_state := JStr ''app-data'', r_scope := Some ''openid''\<rparr>)
      = example_response
          \<lparr>r_state := JStr ''app-data'', r_scope := Some ''openid'',
           r_id_token := Some ''header.payload.signature'', r_access_token := Some ''token'',
           r_token_type := Some ''Bearer'', r_expires_in := Some 3600\<rparr>"
    by (simp add: merge_token_response_def parseInt_3600 js_or_def present_def
        example_token_response_def example_response_def)
  have rq: "requests (new_MetadataService example_settings) = []"
    by (simp add: new_MetadataService_def)
  have iss: "getIssuer example_env example_settings
      (new_MetadataService example_settings\<lparr>requests := rs\<rparr>)
      = (Inr (JStr ''https://idp.example''), new_MetadataService example_settings\<lparr>requests := rs\<rparr>)"
    for rs
    by (simp add: getIssuer_def getMetadataProperty_def example_metadata get_prop_def)
  have ex: "c_exchangeCode example_env n rq = Inr example_token_response" for n rq
    by (simp add: example_env_def)
  have va: "c_validateJwtAttributes example_env a b c d e = Inr [(''sub'', JStr ''abc'')]"
    for a b c d e
    by (simp add: example_env_def)
  have code: "present (r_code (example_response\<lparr>r_state := JStr ''app-data'', r_scope := Some ''openid''\<rparr>))"
    by (simp add: example_response_def present_def)
  have nonce: "\<not> present (st_nonce example_state)"
    by (simp add: example_state_def present_def)
  show ?thesis
    unfolding validateTokens_def processCode_def Let_def
    by (simp add: code ex m rq validateIdTokenAttributes_def iss va nonce get_prop_def)
       (simp add: example_response_def present_def)
qed

lemma processSigninParams_ok_state:
  "processSigninParams settings state response = (None, r1) \<Longrightarrow> r_state r1 = st_data state"
  unfolding processSigninParams_def Let_def
  by (auto split: if_splits)


lemma example_run:
  "validateSigninResponse example_env example_settings example_state example_response
      (new_MetadataService example_settings)
     = (Some SubMismatch,
        example_response
          \<lparr>r_state := JStr ''app-data'', r_scope := Some ''openid'',
           r_id_token := Some ''header.payload.signature'', r_access_token := Some ''token'',
           r_token_type := Some ''Bearer'', r_expires_in := Some 3600,
           r_profile := Some [(''sub'', JStr ''abc'')]\<rparr>,
        new_MetadataService example_settings
          \<lparr>requests := [ExchangeCode (exchange_request example_state
              (example_response\<lparr>r_state := JStr ''app-data'', r_scope := Some ''openid''\<rparr>)),
             GetClaims ''token'']\<rparr>)"
  unfolding validateSigninResponse_def example_params prod.case option.case example_tokens
  by (simp add: processClaims_def Let_def example_env_def example_response_def
      example_state_def example_settings_def present_def str_def filterProtocolClaims_def
      profile_value_def object_assign_def ProtocolClaims_def delete_prop_def get_prop_def)


text \<open>
  C2, as the code has it. Once the response is correlated and the state is consistent
  with the settings (state id, client id and authority checks passed), the response holds
  \<^verbatim>\<open>state.data\<close> in its \<^verbatim>\<open>state\<close> field on every outcome of sign-in validation, so
  on every failure raised from then on; and likewise for sign-out validation once the
  state id matches.
\<close>

theorem data_copied_after_correlation:
  "(r_state response = JStr (st_id state) \<and> present (st_client_id state)
      \<and> present (st_authority state) \<and> cfg_authority settings = st_authority state
      \<and> (present (cfg_client_id settings) \<longrightarrow> cfg_client_id settings = st_client_id state)
    \<longrightarrow> r_state (fst (snd (validateSigninResponse env settings state response ms)))
          = st_data state) \<and>
   (so_state response' = JStr (st_id state')
    \<longrightarrow> so_state (snd (validateSignoutResponse state' response')) = st_data state')"
  by (auto simp: validateSigninResponse_state processSigninParams_state
      validateSignoutResponse_def Let_def)

theorem data_copied_after_correlation_witness:
  "r_state example_response = JStr (st_id example_state) \<and>
   fst (validateSigninResponse example_env example_settings example_state example_response
          (new_MetadataService example_settings)) = Some SubMismatch \<and>
   r_state (fst (snd (validateSigninResponse example_env example_settings example_state
          example_response (new_MetadataService example_settings)))) = st_data example_state \<and>
   validateSignoutResponse example_state (example_signout_response\<lparr>so_error := Some ''access_denied''\<rparr>)
     = (Some (ErrorResponse (Some ''access_denied'') None None (JStr ''app-data'')),
        example_signout_response\<lparr>so_error := Some ''access_denied'', so_state := JStr ''app-data''\<rparr>)"
proof -
  have h: "r_state example_response = JStr (st_id example_state)"
    "present (st_client_id example_state)" "present (st_authority example_state)"
    "cfg_authority example_settings = st_authority example_state"
    "cfg_client_id example_settings = st_client_id example_state"
    "so_state (example_signout_response\<lparr>so_error := Some ''access_denied''\<rparr>)
       = JStr (st_id example_state)"
    by (simp_all add: example_response_def example_state_def example_settings_def
        example_signout_response_def present_def)
  note d = data_copied_after_correlation [of example_response example_state example_settings
      example_env "new_MetadataService example_settings"
      "example_signout_response\<lparr>so_error := Some ''access_denied''\<rparr>" example_state]
  have signout: "validateSignoutResponse example_state
      (example_signout_response\<lparr>so_error := Some ''access_denied''\<rparr>)
     = (Some (ErrorResponse (Some ''access_denied'') None None (JStr ''app-data'')),
        example_signout_response\<lparr>so_error := Some ''access_denied'', so_state := JStr ''app-data''\<rparr>)"
    by (simp add: validateSignoutResponse_def example_signout_response_def example_state_def
        present_def)
  show ?thesis
    using d h signout by (simp add: example_run)
qed

text \<open>
  The claim as worded fails on the failures raised before the copy: a state mismatch, and
  a state that matches but names another authority, leave the received \<^verbatim>\<open>state\<close> on the
  response, not the stored data.
\<close>

theorem data_copied_counterexample:
  "validateSigninResponse example_env example_settings example_state
       (example_response\<lparr>r_state := JStr ''forged''\<rparr>) (new_MetadataService example_settings)
     = (Some StateDoesNotMatch, example_response\<lparr>r_state := JStr ''forged''\<rparr>,
        new_MetadataService example_settings) \<and>
   r_state (example_response\<lparr>r_state := JStr ''forged''\<rparr>) \<noteq> st_data example_state \<and>
   validateSignoutResponse example_state (example_signout_response\<lparr>so_state := JStr ''forged''\<rparr>)
     = (Some StateDoesNotMatch, example_signout_response\<lparr>so_state := JStr ''forged''\<rparr>) \<and>
   so_state (example_signout_response\<lparr>so_state := JStr ''forged''\<rparr>) \<noteq> st_data example_state \<and>
   validateSigninResponse example_env example_settings
       (example_state\<lparr>st_authority := Some ''https://other.example''\<rparr>) example_response
       (new_MetadataService example_settings)
     = (Some AuthorityMismatch, example_response, new_MetadataService example_settings) \<and>
   r_state example_response \<noteq> st_data example_state"
  by (simp add: validateSigninResponse_def processSigninParams_def validateSignoutResponse_def
      example_response_def example_state_def example_signout_response_def example_settings_def
      present_def)

section \<open>User-info claims\<close>

text \<open>
  C6. Let the parameter checks and the token stage of a sign-in validation succeed, let
  the response be an OpenID Connect response for which user-info loading applies (loading
  enabled, not skipped by the state, access token present), and let the claim set fetched
  from the user-info endpoint have a \<^verbatim>\<open>sub\<close> that differs from the \<^verbatim>\<open>sub\<close> of the
  id-token profile. Then validation fails with the subject-mismatch error; the response
  holds the filtered id-token profile, not a merged one; and its \<^verbatim>\<open>state\<close> field holds
  the opaque data.
\<close>

theorem subject_mismatch:
  assumes "processSigninParams settings state response = (None, r1)"
    and "validateTokens env settings state r1 ms = (None, r2, ms1)"
    and "c_isOpenIdConnect env r2" and "st_skipUserInfo state \<noteq> Some True"
    and "cfg_loadUserInfo settings" and "present (r_access_token r2)"
    and "c_getClaims env (length (requests ms1)) (str (r_access_token r2)) = Inr claims"
    and "member claims ''sub'' = Inr sub"
    and "profile = filterProtocolClaims settings (profile_value (r_profile r2))"
    and "\<not> strict_eq sub (get_prop profile ''sub'')"
  shows "validateSigninResponse env settings state response ms =
     (Some SubMismatch, r2\<lparr>r_profile := Some profile\<rparr>,
      ms1\<lparr>requests := requests ms1 @ [GetClaims (str (r_access_token r2))]\<rparr>) \<and>
     r_state (r2\<lparr>r_profile := Some profile\<rparr>) = st_data state"
proof -
  have pc: "processClaims env settings state r2 ms1 =
     (Some SubMismatch, r2\<lparr>r_profile := Some profile\<rparr>,
      ms1\<lparr>requests := requests ms1 @ [GetClaims (str (r_access_token r2))]\<rparr>)"
    unfolding processClaims_def Let_def
    using assms(3-8) assms(10) by (simp add: assms(9) [symmetric])
  have "r_state r1 = st_data state"
    using assms(1) by (rule processSigninParams_ok_state)
  moreover have "r_state r2 = r_state r1"
    using validateTokens_state [of env settings state r1 ms] assms(2) by simp
  ultimately show ?thesis
    using pc assms(1,2) by (simp add: validateSigninResponse_def)
qed


theorem subject_mismatch_witness:
  "processSigninParams example_settings example_state example_response
     = (None, example_response\<lparr>r_state := JStr ''app-data'', r_scope := Some ''openid''\<rparr>) \<and>
   fst (validateTokens example_env example_settings example_state
      (example_response\<lparr>r_state := JStr ''app-data'', r_scope := Some ''openid''\<rparr>)
      (new_MetadataService example_settings)) = None \<and>
   c_getClaims example_env 1 ''token'' = Inr (JObj [(''sub'', JStr ''xyz'')]) \<and>
   fst (validateSigninResponse example_env example_settings example_state example_response
      (new_MetadataService example_settings)) = Some SubMismatch \<and>
   r_state (fst (snd (validateSigninResponse example_env example_settings example_state
      example_response (new_MetadataService example_settings)))) = st_data example_state \<and>
   r_profile (fst (snd (validateSigninResponse example_env example_settings example_state
      example_response (new_MetadataService example_settings)))) = Some [(''sub'', JStr ''abc'')]"
proof -
  let ?r2 = "example_response
          \<lparr>r_state := JStr ''app-data'', r_scope := Some ''openid'',
           r_id_token := Some ''header.payload.signature'', r_access_token := Some ''token'',
           r_token_type := Some ''Bearer'', r_expires_in := Some 3600,
           r_profile := Some [(''sub'', JStr ''abc'')]\<rparr>"
  have oidc: "c_isOpenIdConnect example_env ?r2"
    by (simp add: example_env_def example_response_def present_def)
  have skip: "st_skipUserInfo example_state \<noteq> Some True"
    by (simp add: example_state_def)
  have load: "cfg_loadUserInfo example_settings"
    by (simp add: example_settings_def)
  have token: "present (r_access_token ?r2)"
    by (simp add: example_response_def present_def)
  have claims: "c_getClaims example_env n t = Inr (JObj [(''sub'', JStr ''xyz'')])" for n t
    by (simp add: example_env_def)
  have sub: "member (JObj [(''sub'', JStr ''xyz'')]) ''sub'' = Inr (JStr ''xyz'')"
    by (simp add: get_prop_def)
  have profile: "[(''sub'', JStr ''abc'')]
      = filterProtocolClaims example_settings (profile_value (r_profile ?r2))"
    by (simp add: filterProtocolClaims_def profile_value_def object_assign_def
        ProtocolClaims_def delete_prop_def example_settings_def example_response_def)
  have differ: "\<not> strict_eq (JStr ''xyz'') (get_prop [(''sub'', JStr ''abc'')] ''sub'')"
    by (simp add: get_prop_def)
  have data: "st_data example_state = JStr ''app-data''"
    by (simp add: example_state_def)
  note v = subject_mismatch [OF example_params example_tokens oidc skip load token claims sub
      profile differ, THEN conjunct1]
  show ?thesis
  proof (intro conjI)
    show "processSigninParams example_settings example_state example_response
      = (None, example_response\<lparr>r_state := JStr ''app-data'', r_scope := Some ''openid''\<rparr>)"
      by (rule example_params)
    show "fst (validateTokens example_env example_settings example_state
        (example_response\<lparr>r_state := JStr ''app-data'', r_scope := Some ''openid''\<rparr>)
        (new_MetadataService example_settings)) = None"
      by (simp add: example_tokens)
    show "c_getClaims example_env 1 ''token'' = Inr (JObj [(''sub'', JStr ''xyz'')])"
      by (rule claims)
  qed (simp_all add: v data)
qed

section \<open>Code exchange\<close>

lemma validateIdTokenAttributes_fields:
  "\<exists>p. fst (snd (validateIdTokenAttributes env settings state response id_token ms))
     = response\<lparr>r_profile := p\<rparr>"
proof -
  have keep: "response = response\<lparr>r_profile := r_profile response\<rparr>" by simp
  show ?thesis
    unfolding validateIdTokenAttributes_def Let_def
    by (auto split: prod.splits sum.splits intro: exI [of _ "r_profile response"])
qed

lemma processCode_fields:
  assumes "c_exchangeCode env (length (requests ms)) (exchange_request state response) = Inr t"
  shows "\<exists>p. fst (snd (processCode env settings state response ms)) =
     (merge_token_response t response)\<lparr>r_profile := p\<rparr>"
proof -
  let ?r = "merge_token_response t response"
  let ?ms1 = "ms\<lparr>requests := requests ms @ [ExchangeCode (exchange_request state response)]\<rparr>"
  have pc: "processCode env settings state response ms =
      (if present (r_id_token ?r)
       then validateIdTokenAttributes env settings state ?r (str (r_id_token ?r)) ?ms1
       else (None, ?r, ?ms1))"
    unfolding processCode_def Let_def using assms by simp
  show ?thesis
  proof (cases "present (r_id_token ?r)")
    case True
    then show ?thesis using pc validateIdTokenAttributes_fields by simp
  next
    case False
    have "?r = ?r\<lparr>r_profile := r_profile ?r\<rparr>" by simp
    then show ?thesis using False pc by (auto intro: exI [of _ "r_profile ?r"])
  qed
qed


text \<open>
  C8, as the code has it. When the code exchange answers, each of \<^verbatim>\<open>error\<close>,
  \<^verbatim>\<open>error_description\<close>, \<^verbatim>\<open>error_uri\<close>, \<^verbatim>\<open>id_token\<close>, \<^verbatim>\<open>session_state\<close>,
  \<^verbatim>\<open>access_token\<close>, \<^verbatim>\<open>token_type\<close> and \<^verbatim>\<open>scope\<close> holds the server's value exactly
  when that value is truthy, and its prior value otherwise; \<^verbatim>\<open>expires_in\<close> holds
  \<^verbatim>\<open>parseInt\<close> of the server's value when that is a number other than zero, and its
  prior value otherwise.
\<close>

theorem exchange_fold:
  assumes "c_exchangeCode env (length (requests ms)) (exchange_request state response) = Inr t"
    and "r' = fst (snd (processCode env settings state response ms))"
  shows
   "r_error r' = (if present (tr_error t) then tr_error t else r_error response) \<and>
    r_error_description r' =
      (if present (tr_error_description t) then tr_error_description t
       else r_error_description response) \<and>
    r_error_uri r' = (if present (tr_error_uri t) then tr_error_uri t else r_error_uri response) \<and>
    r_id_token r' = (if present (tr_id_token t) then tr_id_token t else r_id_token response) \<and>
    r_session_state r' =
      (if present (tr_session_state t) then tr_session_state t else r_session_state response) \<and>
    r_access_token r' =
      (if present (tr_access_token t) then tr_access_token t else r_access_token response) \<and>
    r_token_type r' =
      (if present (tr_token_type t) then tr_token_type t else r_token_type response) \<and>
    r_scope r' = (if present (tr_scope t) then tr_scope t else r_scope response) \<and>
    r_expires_in r' =
      (case parseInt (to_string (tr_expires_in t)) of
         None \<Rightarrow> r_expires_in response
       | Some n \<Rightarrow> if n \<noteq> 0 then Some n else r_expires_in response)"
proof -
  obtain p where "r' = (merge_token_response t response)\<lparr>r_profile := p\<rparr>"
    using processCode_fields [OF assms(1)] assms(2) by blast
  then show ?thesis by (simp add: merge_token_response_def js_or_def)
qed


theorem exchange_fold_witness:
  "c_exchangeCode example_env (length (requests (new_MetadataService example_settings)))
     (exchange_request example_state example_response) = Inr example_token_response \<and>
   r_access_token (fst (snd (processCode example_env example_settings example_state
      example_response (new_MetadataService example_settings)))) = Some ''token'' \<and>
   r_scope (fst (snd (processCode example_env example_settings example_state
      (example_response\<lparr>r_scope := Some ''openid''\<rparr>) (new_MetadataService example_settings))))
     = Some ''openid'' \<and>
   r_expires_in (fst (snd (processCode example_env example_settings example_state
      example_response (new_MetadataService example_settings)))) = Some 3600"
proof -
  have ex: "c_exchangeCode example_env n rq = Inr example_token_response" for n rq
    by (simp add: example_env_def)
  note a = exchange_fold [where env = example_env and settings = example_settings
      and state = example_state and response = example_response
      and ms = "new_MetadataService example_settings", OF ex refl]
  note b = exchange_fold [where env = example_env and settings = example_settings
      and state = example_state and response = "example_response\<lparr>r_scope := Some ''openid''\<rparr>"
      and ms = "new_MetadataService example_settings", OF ex refl]
  show ?thesis
    using a b
    by (simp add: ex example_token_response_def present_def parseInt_3600)
qed


text \<open>
  The claim as worded fails for \<^verbatim>\<open>expires_in\<close>: the server's non-empty \<^verbatim>\<open>"0"\<close> does not
  replace the prior value.
\<close>

theorem exchange_fold_counterexample:
  "truthy (JStr ''0'') \<and>
   r_expires_in (fst (snd (processCode
      (example_env\<lparr>c_exchangeCode :=
         (\<lambda>n request. Inr (example_token_response\<lparr>tr_id_token := None, tr_expires_in := JStr ''0''\<rparr>))\<rparr>)
      example_settings example_state (example_response\<lparr>r_expires_in := Some 3600\<rparr>)
      (new_MetadataService example_settings)))) = Some 3600"
  by (simp add: processCode_def example_token_response_def example_response_def present_def
      js_or_def parseInt_def is_white_def digit_value_def digits_value_def Let_def
      merge_token_response_def)


section \<open>Access-token hash\<close>

lemma sha_names:
  "string_of_int 256 = ''256''"
  "string_of_int 384 = ''384''"
  "string_of_int 512 = ''512''"
  by (simp_all add: string_of_int_def string_of_nat.simps digit_char_def)

lemma present_Some: "present (Some s) = (s \<noteq> [])"
  by (simp add: present_def)

lemma str_Some: "str (Some s) = s"
  by (simp add: str_def)

lemma present_None: "\<not> present None"
  by (simp add: present_def)

lemma validateAccessToken_alg:
  assumes "r_profile response = Some profile" and "truthy (get_prop profile ''at_hash'')"
    and "present (r_id_token response)"
    and "c_parseJwt env (str (r_id_token response)) = Some jwt"
    and "jwt_header jwt = Some header"
  shows "validateAccessToken env response access_token =
     (case h_alg header of
        None \<Rightarrow> (Some (UnsupportedAlg None), response)
      | Some alg \<Rightarrow>
          if length alg \<noteq> 5 then (Some (UnsupportedAlg (Some alg)), response)
          else
            (case parseInt (take 3 (drop 2 alg)) of
               None \<Rightarrow> (Some (UnsupportedAlg (Some alg)), response)
             | Some bits \<Rightarrow>
                 if bits \<noteq> 256 \<and> bits \<noteq> 384 \<and> bits \<noteq> 512
                 then (Some (UnsupportedAlg (Some alg)), response)
                 else
                   (case c_hashString env access_token (''sha'' @ string_of_int bits) of
                      None \<Rightarrow> (Some AtHashFailed, response)
                    | Some hash \<Rightarrow>
                        if hash = [] then (Some AtHashFailed, response)
                        else if get_prop profile ''at_hash''
                                = JStr (c_hexToBase64Url env (take (length hash div 2) hash))
                        then (None, response)
                        else (Some AtHashFailed, response))))"
proof (cases "h_alg header")
  case None
  then show ?thesis
    unfolding validateAccessToken_def Let_def using assms by (simp add: present_None)
next
  case (Some alg)
  show ?thesis
  proof (cases "length alg = 5")
    case False
    then show ?thesis
      unfolding validateAccessToken_def Let_def using assms Some
      by (simp add: present_Some str_Some)
  next
    case True
    then have ne: "alg \<noteq> []" "drop 2 alg \<noteq> []" "take 3 (drop 2 alg) = drop 2 alg"
      by auto
    show ?thesis
    proof (cases "parseInt (take 3 (drop 2 alg))")
      case None
      then show ?thesis
        unfolding validateAccessToken_def Let_def using assms Some True ne
        by (simp add: present_Some str_Some)
    next
      case bits: (Some bits)
      show ?thesis
      proof (cases "bits \<noteq> 256 \<and> bits \<noteq> 384 \<and> bits \<noteq> 512")
        case True
        then show ?thesis
          unfolding validateAccessToken_def Let_def using assms Some \<open>length alg = 5\<close> ne bits
          by (simp add: present_Some str_Some)
      next
        case supported: False
        then have c: "(bits \<noteq> 256 \<and> bits \<noteq> 384 \<and> bits \<noteq> 512) = False" by simp
        from bits ne have bits': "parseInt (drop 2 alg) = Some bits" by simp
        show ?thesis
        proof (cases "c_hashString env access_token (''sha'' @ string_of_int bits)")
          case None
          note hash' = None [simplified]
          show ?thesis
            unfolding validateAccessToken_def Let_def
            by (simp add: assms Some \<open>length alg = 5\<close> ne bits' c hash' present_Some
                present_None str_Some split del: if_split cong: if_cong)
        next
          case hash: (Some hash)
          note hash' = hash [simplified]
          show ?thesis
            unfolding validateAccessToken_def Let_def
            by (simp add: assms Some \<open>length alg = 5\<close> ne bits' c hash' present_Some
                str_Some strict_eq_JStr eq_commute [of "JStr _"] split del: if_split cong: if_cong)
               auto
        qed
      qed
    qed
  qed
qed


lemma leading_digits_length: "length (leading_digits r s) \<le> length s"
  by (induction s) (auto split: option.splits)

lemma leading_digits_bound: "d \<in> set (leading_digits r s) \<Longrightarrow> d < r"
  by (induction s) (auto split: option.splits if_splits)

lemma foldl_digits_bound:
  "(\<And>d. d \<in> set ds \<Longrightarrow> d < r) \<Longrightarrow>
   foldl (\<lambda>acc d. acc * r + d) (a::nat) ds < (a + 1) * r ^ length ds"
proof (induction ds arbitrary: a)
  case Nil
  show ?case by simp
next
  case (Cons d ds)
  have "d < r" using Cons.prems by simp
  then have step: "a * r + d + 1 \<le> (a + 1) * r" by (simp add: algebra_simps)
  have "foldl (\<lambda>acc d. acc * r + d) a (d # ds) = foldl (\<lambda>acc d. acc * r + d) (a * r + d) ds"
    by simp
  also have "\<dots> < (a * r + d + 1) * r ^ length ds"
    using Cons.IH [of "a * r + d"] Cons.prems by simp
  also have "\<dots> \<le> ((a + 1) * r) * r ^ length ds"
    using step by (rule mult_le_mono1)
  also have "\<dots> = (a + 1) * r ^ length (d # ds)"
    by (simp add: algebra_simps)
  finally show ?case .
qed

lemma digits_value_bound:
  "digits_value r (leading_digits r s) < r ^ length (leading_digits r s)"
  using foldl_digits_bound [of "leading_digits r s" r 0] leading_digits_bound [of _ r s]
  by (simp add: digits_value_def)

lemma decimal_digit_char:
  "digit_value c = Some d \<Longrightarrow> d < 10 \<Longrightarrow> c = digit_char d"
proof -
  assume dv: "digit_value c = Some d" and d: "d < 10"
  have n: "(of_char c :: nat) = 48 + d"
    using dv d by (auto simp: digit_value_def Let_def split: if_splits)
  have "d \<in> {0, 1, 2, 3, 4, 5, 6, 7, 8, 9}" using d by auto
  then have "(of_char c :: nat) = of_char (digit_char d)"
    using n by (auto simp: digit_char_def)
  then show ?thesis by (rule of_char_eqI)
qed

lemma leading_digits_full:
  "length (leading_digits r s) = length s \<Longrightarrow>
   map (\<lambda>c. digit_value c) s = map Some (leading_digits r s)"
proof (induction s)
  case Nil
  then show ?case by simp
next
  case (Cons c s)
  have le: "length (leading_digits r s) \<le> length s" by (rule leading_digits_length)
  from Cons.prems le show ?case
    using Cons.IH by (auto split: option.splits if_splits)
qed

lemma dropWhile_same_length: "length (dropWhile P s) = length s \<Longrightarrow> dropWhile P s = s"
proof (cases s)
  case Nil
  then show ?thesis by simp
next
  case (Cons c cs)
  assume l: "length (dropWhile P s) = length s"
  show ?thesis
  proof (cases "P c")
    case True
    have "length (dropWhile P cs) \<le> length cs" by (rule length_dropWhile_le)
    with l Cons True show ?thesis by simp
  next
    case False
    with Cons show ?thesis by simp
  qed
qed

lemma parseInt_decimal3:
  assumes "length s = 3" and "parseInt s = Some n" and "100 \<le> n"
  shows "\<exists>a b c. s = [digit_char a, digit_char b, digit_char c] \<and> a < 10 \<and> b < 10 \<and> c < 10
     \<and> n = int (100 * a + 10 * b + c)"
proof -
  define s1 where "s1 = dropWhile is_white s"
  define neg where "neg = (case s1 of c # r \<Rightarrow> c = CHR ''-'' | [] \<Rightarrow> False)"
  define s2 where "s2 = (case s1 of c # r \<Rightarrow> if c = CHR ''-'' \<or> c = CHR ''+'' then r else s1 | [] \<Rightarrow> s1)"
  define hex where "hex = (case s2 of a # b # r \<Rightarrow> a = CHR ''0'' \<and> (b = CHR ''x'' \<or> b = CHR ''X'') | _ \<Rightarrow> False)"
  define radix :: nat where "radix = (if hex then 16 else 10)"
  define ds where "ds = leading_digits radix (if hex then drop 2 s2 else s2)"
  have p: "parseInt s = (if ds = [] then None
      else Some (if neg then - int (digits_value radix ds) else int (digits_value radix ds)))"
    unfolding parseInt_def Let_def ds_def radix_def hex_def s2_def neg_def s1_def ..
  have l1: "length s1 \<le> 3"
    using assms(1) length_dropWhile_le [of is_white s] by (simp add: s1_def)
  have l2: "length s2 \<le> length s1"
    by (cases s1) (simp_all add: s2_def)
  from p assms(2,3) have nonneg: "\<not> neg" and val: "n = int (digits_value radix ds)"
    by (auto split: if_splits)
  have bound: "digits_value radix ds < radix ^ length ds"
    unfolding ds_def by (rule digits_value_bound)
  have nothex: "\<not> hex"
  proof
    assume hex
    then have "length ds \<le> 1"
      using leading_digits_length [of radix "drop 2 s2"] l1 l2 by (simp add: ds_def)
    then have "radix ^ length ds \<le> 16"
      using \<open>hex\<close> by (cases "length ds") (simp_all add: radix_def)
    with bound val assms(3) show False by simp
  qed
  then have radix: "radix = 10" and ds: "ds = leading_digits 10 s2"
    by (simp_all add: radix_def ds_def)
  have len: "length ds \<le> length s2"
    unfolding ds by (rule leading_digits_length)
  have "3 \<le> length ds"
  proof (rule ccontr)
    assume "\<not> 3 \<le> length ds"
    then have "length ds \<le> 2" by simp
    then have "(10::nat) ^ length ds \<le> 10 ^ 2" by (intro power_increasing) simp_all
    with bound val assms(3) radix show False by simp
  qed
  with len l1 l2 have eq: "length ds = 3" "length s2 = 3" "length s1 = 3" by simp_all
  have s1: "s1 = s"
    unfolding s1_def using eq(3) assms(1) by (intro dropWhile_same_length) (simp add: s1_def)
  have s2: "s2 = s1"
    using eq(2,3) by (cases s1) (auto simp: s2_def split: if_splits)
  have full: "map digit_value s = map Some ds"
    using leading_digits_full [of 10 s] eq(1) assms(1) ds s1 s2 by simp
  obtain x y z where s: "s = [x, y, z]"
    using assms(1) by (cases s; cases "tl s"; cases "tl (tl s)") auto
  obtain a b c where d3: "ds = [a, b, c]"
    using eq(1) by (cases ds; cases "tl ds"; cases "tl (tl ds)") auto
  have "a \<in> set ds" "b \<in> set ds" "c \<in> set ds"
    by (simp_all add: d3)
  then have lt: "a < 10" "b < 10" "c < 10"
    unfolding ds by (auto dest: leading_digits_bound)
  have dv: "digit_value x = Some a" "digit_value y = Some b" "digit_value z = Some c"
    using full s d3 by simp_all
  have "s = [digit_char a, digit_char b, digit_char c]"
    using s decimal_digit_char [OF dv(1) lt(1)] decimal_digit_char [OF dv(2) lt(2)]
      decimal_digit_char [OF dv(3) lt(3)] by simp
  moreover have "n = int (100 * a + 10 * b + c)"
    using val radix d3 by (simp add: digits_value_def)
  ultimately show ?thesis using lt by blast
qed

lemma three_digits:
  fixes x y z :: nat
  assumes "x < 10" "y < 10" "z < 10" "a < 10" "b < 10" "c < 10"
    and "100 * a + 10 * b + c = 100 * x + 10 * y + z"
  shows "x = a \<and> y = b \<and> z = c"
proof -
  have x: "x = a" using assms by linarith
  have y: "y = b" using assms x by linarith
  have z: "z = c" using assms x y by linarith
  from x y z show ?thesis by simp
qed

lemma parseInt_digits_unique:
  assumes "length s = 3" and "parseInt s = Some (int (100 * a + 10 * b + c))"
    and "0 < a" "a < 10" "b < 10" "c < 10"
  shows "s = [digit_char a, digit_char b, digit_char c]"
proof -
  have "100 \<le> int (100 * a + 10 * b + c)" using assms(3) by simp
  from parseInt_decimal3 [OF assms(1,2) this]
  obtain x y z where s: "s = [digit_char x, digit_char y, digit_char z]"
    and lt: "x < 10" "y < 10" "z < 10"
    and n: "int (100 * a + 10 * b + c) = int (100 * x + 10 * y + z)"
    by blast
  from n have "100 * a + 10 * b + c = 100 * x + 10 * y + z" by (simp only: of_nat_eq_iff)
  with lt assms(4-6) have "x = a \<and> y = b \<and> z = c" by (intro three_digits)
  with s show ?thesis by simp
qed

lemma parseInt_digest_bits:
  assumes "length s = 3"
  shows "(parseInt s = Some 256 \<longleftrightarrow> s = ''256'') \<and>
     (parseInt s = Some 384 \<longleftrightarrow> s = ''384'') \<and>
     (parseInt s = Some 512 \<longleftrightarrow> s = ''512'')"
proof -
  have known: "parseInt ''256'' = Some 256" "parseInt ''384'' = Some 384"
    "parseInt ''512'' = Some 512"
    by (simp_all add: parseInt_def is_white_def digit_value_def digits_value_def)
  have a: "s = ''256''" if "parseInt s = Some 256"
    using parseInt_digits_unique [of s 2 5 6] assms that by (simp add: digit_char_def)
  have b: "s = ''384''" if "parseInt s = Some 384"
    using parseInt_digits_unique [of s 3 8 4] assms that by (simp add: digit_char_def)
  have c: "s = ''512''" if "parseInt s = Some 512"
    using parseInt_digits_unique [of s 5 1 2] assms that by (simp add: digit_char_def)
  from a b c known show ?thesis by blast
qed

lemma validateAccessToken_accepts:
  assumes "r_profile response = Some profile" and "truthy (get_prop profile ''at_hash'')"
    and "present (r_id_token response)"
    and "c_parseJwt env (str (r_id_token response)) = Some jwt"
    and "jwt_header jwt = Some header"
  shows "(validateAccessToken env response access_token = (None, response) \<longleftrightarrow>
       (\<exists>alg bits sha hash.
          h_alg header = Some alg \<and> length alg = 5 \<and>
          parseInt (take 3 (drop 2 alg)) = Some bits \<and>
          (bits = 256 \<and> sha = ''sha256'' \<or> bits = 384 \<and> sha = ''sha384''
             \<or> bits = 512 \<and> sha = ''sha512'') \<and>
          c_hashString env access_token sha = Some hash \<and> hash \<noteq> [] \<and>
          get_prop profile ''at_hash''
            = JStr (c_hexToBase64Url env (take (length hash div 2) hash)))) \<and>
     (validateAccessToken env response access_token = (None, response)
      \<or> validateAccessToken env response access_token = (Some (UnsupportedAlg (h_alg header)), response)
      \<or> validateAccessToken env response access_token = (Some AtHashFailed, response))"
proof -
  note v = validateAccessToken_alg [OF assms, of access_token]
  show ?thesis
  proof (cases "h_alg header")
    case None
    then show ?thesis using v by simp
  next
    case (Some alg)
    show ?thesis
    proof (cases "parseInt (take 3 (drop 2 alg))")
      case None
      then show ?thesis using v Some by auto
    next
      case bits: (Some bits)
      consider (a) "bits = 256" | (b) "bits = 384" | (c) "bits = 512"
        | (d) "bits \<noteq> 256 \<and> bits \<noteq> 384 \<and> bits \<noteq> 512"
        by blast
      then show ?thesis
      proof cases
        case a
        then show ?thesis using v Some bits
          by (cases "c_hashString env access_token ''sha256''") (auto simp: sha_names split: if_splits)
      next
        case b
        then show ?thesis using v Some bits
          by (cases "c_hashString env access_token ''sha384''") (auto simp: sha_names split: if_splits)
      next
        case c
        then show ?thesis using v Some bits
          by (cases "c_hashString env access_token ''sha512''") (auto simp: sha_names split: if_splits)
      next
        case d
        then show ?thesis using v Some bits by auto
      qed
    qed
  qed
qed


text \<open>
  C5. Let the response carry a profile with a truthy \<^verbatim>\<open>at_hash\<close> and an id token whose
  header parses. The access token is accepted exactly when the header's \<^verbatim>\<open>alg\<close> has
  five characters, its last three parse to 256, 384 or 512 (which they do exactly when
  they are the numerals \<^verbatim>\<open>256\<close>, \<^verbatim>\<open>384\<close>, \<^verbatim>\<open>512\<close>), the digest of the access
  token under the corresponding hash function (\<^verbatim>\<open>sha256\<close>, \<^verbatim>\<open>sha384\<close>, \<^verbatim>\<open>sha512\<close>) is
  produced, and the base64url encoding of the left half of that digest is the profile's
  \<^verbatim>\<open>at_hash\<close>. Any other case is a failure: the unsupported-algorithm error or the
  at_hash error. Either way the response is left as it was.
\<close>

theorem at_hash_validation:
  assumes "r_profile response = Some profile" and "truthy (get_prop profile ''at_hash'')"
    and "present (r_id_token response)"
    and "c_parseJwt env (str (r_id_token response)) = Some jwt"
    and "jwt_header jwt = Some header"
  shows "(validateAccessToken env response access_token = (None, response) \<longleftrightarrow>
       (\<exists>alg bits sha hash.
          h_alg header = Some alg \<and> length alg = 5 \<and>
          parseInt (take 3 (drop 2 alg)) = Some bits \<and>
          (bits = 256 \<and> sha = ''sha256'' \<or> bits = 384 \<and> sha = ''sha384''
             \<or> bits = 512 \<and> sha = ''sha512'') \<and>
          c_hashString env access_token sha = Some hash \<and> hash \<noteq> [] \<and>
          get_prop profile ''at_hash''
            = JStr (c_hexToBase64Url env (take (length hash div 2) hash)))) \<and>
     (validateAccessToken env response access_token = (None, response)
      \<or> validateAccessToken env response access_token = (Some (UnsupportedAlg (h_alg header)), response)
      \<or> validateAccessToken env response access_token = (Some AtHashFailed, response)) \<and>
     (length alg' = 5 \<longrightarrow>
        (parseInt (take 3 (drop 2 alg')) = Some 256 \<longleftrightarrow> drop 2 alg' = ''256'') \<and>
        (parseInt (take 3 (drop 2 alg')) = Some 384 \<longleftrightarrow> drop 2 alg' = ''384'') \<and>
        (parseInt (take 3 (drop 2 alg')) = Some 512 \<longleftrightarrow> drop 2 alg' = ''512''))"
proof -
  have shape: "(parseInt (take 3 (drop 2 alg')) = Some 256 \<longleftrightarrow> drop 2 alg' = ''256'') \<and>
        (parseInt (take 3 (drop 2 alg')) = Some 384 \<longleftrightarrow> drop 2 alg' = ''384'') \<and>
        (parseInt (take 3 (drop 2 alg')) = Some 512 \<longleftrightarrow> drop 2 alg' = ''512'')"
    if "length alg' = 5"
  proof -
    from that have "length (drop 2 alg') = 3" by simp
    from parseInt_digest_bits [OF this] that show ?thesis by simp
  qed
  from validateAccessToken_accepts [OF assms, of access_token] shape show ?thesis
    by blast
qed

lemma parseInt_256: "parseInt ''256'' = Some 256"
  by (simp add: parseInt_def is_white_def digit_value_def digits_value_def)

theorem at_hash_validation_witness:
  "r_profile example_implicit
     = Some [(''sub'', JStr ''abc''), (''at_hash'', JStr ''0011223344556677'')] \<and>
   present (r_id_token example_implicit) \<and>
   c_hashString example_env ''token'' ''sha256'' = Some ''00112233445566778899aabbccddeeff'' \<and>
   validateAccessToken example_env example_implicit ''token'' = (None, example_implicit) \<and>
   validateAccessToken example_env
      (example_implicit\<lparr>r_profile := Some [(''sub'', JStr ''abc''), (''at_hash'', JStr ''forged'')]\<rparr>)
      ''token''
     \<noteq> (None, example_implicit\<lparr>r_profile := Some [(''sub'', JStr ''abc''), (''at_hash'', JStr ''forged'')]\<rparr>)"
proof -
  let ?jwt = "\<lparr> jwt_header = Some \<lparr> h_alg = Some ''RS256'', h_kid = None \<rparr>,
                 jwt_payload = Some [(''sub'', JStr ''abc'')] \<rparr>"
  let ?forged = "example_implicit\<lparr>r_profile := Some [(''sub'', JStr ''abc''), (''at_hash'', JStr ''forged'')]\<rparr>"
  have profile: "r_profile example_implicit
      = Some [(''sub'', JStr ''abc''), (''at_hash'', JStr ''0011223344556677'')]"
    and profile': "r_profile ?forged = Some [(''sub'', JStr ''abc''), (''at_hash'', JStr ''forged'')]"
    by (simp_all add: example_implicit_def)
  have at_hash: "truthy (get_prop [(''sub'', JStr ''abc''), (''at_hash'', JStr ''0011223344556677'')] ''at_hash'')"
    and at_hash': "truthy (get_prop [(''sub'', JStr ''abc''), (''at_hash'', JStr ''forged'')] ''at_hash'')"
    by (simp_all add: get_prop_def)
  have token: "present (r_id_token example_implicit)" and token': "present (r_id_token ?forged)"
    by (simp_all add: example_implicit_def present_def)
  have jwt: "c_parseJwt example_env t = Some ?jwt" for t
    by (simp add: example_env_def)
  have header: "jwt_header ?jwt = Some \<lparr> h_alg = Some ''RS256'', h_kid = None \<rparr>"
    by simp
  have hash: "c_hashString example_env t a = Some ''00112233445566778899aabbccddeeff''" for t a
    by (simp add: example_env_def)
  have b64: "c_hexToBase64Url example_env h = h" for h
    by (simp add: example_env_def)
  note accept = at_hash_validation [OF profile at_hash token jwt header, of "''token''",
      THEN conjunct1]
  note reject = at_hash_validation [OF profile' at_hash' token' jwt header, of "''token''",
      THEN conjunct1]
  have "validateAccessToken example_env example_implicit ''token'' = (None, example_implicit)"
    unfolding accept
    by (intro exI [of _ "''RS256''"] exI [of _ 256] exI [of _ "''sha256''"]
        exI [of _ "''00112233445566778899aabbccddeeff''"])
       (simp add: parseInt_256 hash b64 get_prop_def)
  moreover have "validateAccessToken example_env ?forged ''token'' \<noteq> (None, ?forged)"
    unfolding reject by (simp add: hash b64 get_prop_def)
  ultimately show ?thesis
    using profile token hash by simp
qed

section \<open>The metadata cache\<close>

lemma getMetadata_cached:
  "ms_metadata ms = Some m \<Longrightarrow> getMetadata env settings ms = (Inr m, ms)"
  by (simp add: getMetadata_def)

lemma getMetadataProperty_cached:
  "ms_metadata ms = Some m \<Longrightarrow> snd (getMetadataProperty env settings name optional ms) = ms"
  by (simp add: getMetadataProperty_def getMetadata_cached)

lemma getSigningKeys_metadata:
  "ms_metadata ms = Some m \<Longrightarrow> ms_metadata (snd (getSigningKeys env settings ms)) = Some m"
  by (simp add: getSigningKeys_def getKeysEndpoint_def getMetadataProperty_def getMetadata_cached
      Let_def split: sum.splits)

lemma service_step_metadata:
  "ms_metadata ms = Some m \<Longrightarrow> ms_metadata (service_step env settings ms call) = Some m"
  by (cases call)
     (simp_all add: getMetadata_cached getMetadataProperty_cached getSigningKeys_metadata
        resetSigningKeys_def)

lemma service_run_metadata:
  "ms_metadata ms = Some m \<Longrightarrow> ms_metadata (service_run env settings calls ms) = Some m"
  unfolding service_run_def
  by (induction calls arbitrary: ms) (simp_all add: service_step_metadata)

lemma map_of_set_prop:
  "map_of (set_prop r n v) m = (if m = n then Some v else map_of r m)"
  by (induction r n v rule: set_prop.induct) auto

lemma map_of_assign_props:
  "distinct (map fst ps) \<Longrightarrow>
   map_of (assign_props t ps) name =
     (case map_of ps name of Some v \<Rightarrow> Some v | None \<Rightarrow> map_of t name)"
proof (induction ps arbitrary: t)
  case Nil
  then show ?case by simp
next
  case (Cons p ps)
  obtain k v where p: "p = (k, v)" by (cases p)
  with Cons.prems have d: "distinct (map fst ps)" and fresh: "k \<notin> fst ` set ps" by auto
  from fresh have none: "map_of ps k = None" by (simp add: map_of_eq_None_iff)
  show ?case using Cons.IH [OF d, of "set_prop t k v"] p none
    by (auto simp: map_of_set_prop split: option.splits)
qed


lemma map_of_object_assign:
  "distinct (map fst ps) \<Longrightarrow>
   map_of (object_assign t (JObj ps)) name =
     (case map_of ps name of Some v \<Rightarrow> Some v | None \<Rightarrow> map_of t name)"
  by (simp add: object_assign_def map_of_assign_props)

lemma getMetadata_fetch:
  assumes "ms_metadata ms = None" and "ms_metadataUrl ms = Some url" and "url \<noteq> []"
    and "c_getJson env (length (requests ms)) (JStr url) = Inr metadata"
    and "seed = (case cfg_metadataSeed settings of Some sd \<Rightarrow> sd | None \<Rightarrow> [])"
    and "m = object_assign (object_assign [] (JObj seed)) metadata"
  shows "getMetadata env settings ms =
     (Inr m, ms\<lparr>requests := requests ms @ [GetJson (JStr url)], ms_metadata := Some m\<rparr>)"
  using assms by (simp add: getMetadata_def present_def str_def Let_def)

lemma new_MetadataService_url:
  "ms_metadataUrl (new_MetadataService settings) =
     (if present (cfg_metadataUrl settings) then cfg_metadataUrl settings
      else if present (cfg_authority settings)
      then Some ((if last (str (cfg_authority settings)) \<noteq> CHR ''/''
                  then str (cfg_authority settings) @ ''/'' else str (cfg_authority settings))
                 @ ''.well-known/openid-configuration'')
      else None)"
  by (simp add: new_MetadataService_def Let_def OidcMetadataUrlPath_def)

lemma getMetadata_halves:
  "getMetadata env settings ms =
     (case getMetadata_request ms of
        (Some r, ms1) \<Rightarrow> (r, ms1)
      | (None, ms1) \<Rightarrow>
          getMetadata_response settings
            (c_getJson env (length (requests ms)) (JStr (str (ms_metadataUrl ms)))) ms1)"
  by (simp add: getMetadata_def getMetadata_request_def getMetadata_response_def Let_def
      split: option.splits sum.splits)

lemma getSigningKeys_halves:
  "getSigningKeys env settings ms =
     (if truthy (ms_signingKeys ms) then (Inr (ms_signingKeys ms), ms)
      else
        case getKeysEndpoint env settings False ms of
          (Inl e, ms1) \<Rightarrow> (Inl e, ms1)
        | (Inr jwks_uri, ms1) \<Rightarrow>
            getSigningKeys_response (c_getJson env (length (requests ms1)) jwks_uri)
              (getSigningKeys_request jwks_uri ms1))"
  by (simp add: getSigningKeys_def getSigningKeys_request_def getSigningKeys_response_def Let_def
      split: prod.splits sum.splits)

lemma service_event_step_cached:
  "ms_metadata ms \<noteq> None \<Longrightarrow> ms_metadata (service_event_step env settings ms event) \<noteq> None"
proof (cases event)
  case (Complete call)
  then show "ms_metadata ms \<noteq> None \<Longrightarrow> ?thesis"
    using service_step_metadata [of ms _ env settings call] by auto
next
  case MetadataRequested
  then show "ms_metadata ms \<noteq> None \<Longrightarrow> ?thesis"
    by (auto simp: getMetadata_request_def)
next
  case (MetadataAnswered answer)
  then show "ms_metadata ms \<noteq> None \<Longrightarrow> ?thesis"
    by (auto simp: getMetadata_response_def Let_def split: sum.splits)
next
  case (KeysRequested uri)
  then show "ms_metadata ms \<noteq> None \<Longrightarrow> ?thesis"
    by (simp add: getSigningKeys_request_def)
next
  case (KeysAnswered answer)
  then show "ms_metadata ms \<noteq> None \<Longrightarrow> ?thesis"
    by (auto simp: getSigningKeys_response_def split: sum.splits)
qed

lemma service_trace_cached:
  "ms_metadata ms \<noteq> None \<Longrightarrow> ms_metadata (service_trace env settings events ms) \<noteq> None"
  unfolding service_trace_def
proof (induction events arbitrary: ms)
  case Nil
  then show ?case by simp
next
  case (Cons event events)
  from Cons.prems have "ms_metadata (service_event_step env settings ms event) \<noteq> None"
    by (rule service_event_step_cached)
  from Cons.IH [OF this] show ?case by simp
qed

lemma getMetadata_request_cached:
  "ms_metadata ms = Some m \<Longrightarrow> getMetadata_request ms = (Some (Inr m), ms)"
  by (simp add: getMetadata_request_def)

text \<open>
  C9, as the code has it. \<^verbatim>\<open>getMetadata\<close> returns the cached document without a request
  when there is one, and a statically configured document is cached by the constructor,
  whatever the authority. With nothing cached and no metadata URL (none is resolved when
  neither a metadata URL nor an authority is configured) it fails with the configuration
  error. With nothing cached and a URL, a call that no other call overlaps makes one
  request; when that is answered by an object, the own properties of the result are those
  of the seed overlaid with the fetched ones, the fetched value winning when both have a
  name (neither document having a property named \<^verbatim>\<open>__proto__\<close>); the result is cached; and
  after any further complete calls \<^verbatim>\<open>getMetadata\<close> returns that document without a
  request. Once a document is cached, then whatever happens to the instance, calls that
  overlap included, a document stays cached and \<^verbatim>\<open>getMetadata\<close> returns the cached one
  without a request: its first half ends the call.
\<close>

theorem getMetadata_behaviour:
  "(ms_metadata msA = Some mA \<longrightarrow> getMetadata env settingsA msA = (Inr mA, msA)) \<and>
   (cfg_metadata settingsB = Some mB \<longrightarrow>
      getMetadata env settingsB (new_MetadataService settingsB)
        = (Inr mB, new_MetadataService settingsB) \<and>
      requests (new_MetadataService settingsB) = []) \<and>
   (ms_metadata msC = None \<and> \<not> present (ms_metadataUrl msC) \<longrightarrow>
      getMetadata env settingsC msC = (Inl NoMetadataUrl, msC)) \<and>
   (cfg_metadata settingsE = None \<and> \<not> present (cfg_metadataUrl settingsE)
      \<and> \<not> present (cfg_authority settingsE) \<longrightarrow>
      getMetadata env settingsE (new_MetadataService settingsE)
        = (Inl NoMetadataUrl, new_MetadataService settingsE)) \<and>
   (ms_metadata msD = None \<and> ms_metadataUrl msD = Some url \<and> url \<noteq> [] \<and>
    c_getJson env (length (requests msD)) (JStr url) = Inr (JObj fetched) \<and>
    distinct (map fst fetched) \<and> ''__proto__'' \<notin> set (map fst fetched) \<and>
    cfg_metadataSeed settingsD = seed \<and>
    (case seed of
       Some sd \<Rightarrow> distinct (map fst sd) \<and> ''__proto__'' \<notin> set (map fst sd)
     | None \<Rightarrow> True) \<longrightarrow>
      (\<exists>m. getMetadata env settingsD msD =
             (Inr m, msD\<lparr>requests := requests msD @ [GetJson (JStr url)], ms_metadata := Some m\<rparr>) \<and>
           (\<forall>name. map_of m name =
              (case map_of fetched name of
                 Some v \<Rightarrow> Some v
               | None \<Rightarrow> (case seed of Some sd \<Rightarrow> map_of sd name | None \<Rightarrow> None))) \<and>
           (\<forall>calls. getMetadata env settingsD
                (service_run env settingsD calls (snd (getMetadata env settingsD msD)))
              = (Inr m, service_run env settingsD calls (snd (getMetadata env settingsD msD)))))) \<and>
   (ms_metadata msF = Some mF \<longrightarrow>
      (\<forall>events. \<exists>m. ms_metadata (service_trace env settingsF events msF) = Some m \<and>
         getMetadata_request (service_trace env settingsF events msF)
           = (Some (Inr m), service_trace env settingsF events msF) \<and>
         getMetadata env settingsF (service_trace env settingsF events msF)
           = (Inr m, service_trace env settingsF events msF)))"
proof (intro conjI impI)
  assume "ms_metadata msA = Some mA"
  then show "getMetadata env settingsA msA = (Inr mA, msA)" by (rule getMetadata_cached)
next
  assume "cfg_metadata settingsB = Some mB"
  then have "ms_metadata (new_MetadataService settingsB) = Some mB"
    by (simp add: new_MetadataService_def)
  then show "getMetadata env settingsB (new_MetadataService settingsB)
      = (Inr mB, new_MetadataService settingsB)"
    by (rule getMetadata_cached)
next
  show "requests (new_MetadataService settingsB) = []"
    by (simp add: new_MetadataService_def)
next
  assume "ms_metadata msC = None \<and> \<not> present (ms_metadataUrl msC)"
  then show "getMetadata env settingsC msC = (Inl NoMetadataUrl, msC)"
    by (simp add: getMetadata_def)
next
  assume "cfg_metadata settingsE = None \<and> \<not> present (cfg_metadataUrl settingsE)
      \<and> \<not> present (cfg_authority settingsE)"
  then have "ms_metadata (new_MetadataService settingsE) = None"
    and "\<not> present (ms_metadataUrl (new_MetadataService settingsE))"
    by (simp_all add: new_MetadataService_url present_None) (simp add: new_MetadataService_def)
  then show "getMetadata env settingsE (new_MetadataService settingsE)
      = (Inl NoMetadataUrl, new_MetadataService settingsE)"
    by (simp add: getMetadata_def)
next
  assume h: "ms_metadata msD = None \<and> ms_metadataUrl msD = Some url \<and> url \<noteq> [] \<and>
    c_getJson env (length (requests msD)) (JStr url) = Inr (JObj fetched) \<and>
    distinct (map fst fetched) \<and> ''__proto__'' \<notin> set (map fst fetched) \<and>
    cfg_metadataSeed settingsD = seed \<and>
    (case seed of
       Some sd \<Rightarrow> distinct (map fst sd) \<and> ''__proto__'' \<notin> set (map fst sd)
     | None \<Rightarrow> True)"
  define sd where "sd = (case cfg_metadataSeed settingsD of Some sd \<Rightarrow> sd | None \<Rightarrow> [])"
  define m where "m = object_assign (object_assign [] (JObj sd)) (JObj fetched)"
  let ?ms = "msD\<lparr>requests := requests msD @ [GetJson (JStr url)], ms_metadata := Some m\<rparr>"
  have g: "getMetadata env settingsD msD = (Inr m, ?ms)"
    using h by (intro getMetadata_fetch [OF _ _ _ _ sd_def m_def]) simp_all
  have dsd: "distinct (map fst sd)"
    using h by (auto simp: sd_def split: option.splits)
  have copy: "object_assign [] (JObj sd) = sd"
    using dsd by (rule object_assign_copy)
  have look: "map_of m name =
      (case map_of fetched name of
         Some v \<Rightarrow> Some v
       | None \<Rightarrow> (case seed of Some sd \<Rightarrow> map_of sd name | None \<Rightarrow> None))" for name
  proof -
    have "map_of m name = (case map_of fetched name of Some v \<Rightarrow> Some v | None \<Rightarrow> map_of sd name)"
      using h by (simp add: m_def copy map_of_object_assign)
    moreover have "map_of sd name = (case seed of Some sd \<Rightarrow> map_of sd name | None \<Rightarrow> None)"
      using h by (auto simp: sd_def split: option.splits)
    ultimately show ?thesis by (simp split: option.splits)
  qed
  have later: "getMetadata env settingsD (service_run env settingsD calls ?ms)
      = (Inr m, service_run env settingsD calls ?ms)" for calls
    by (rule getMetadata_cached) (simp add: service_run_metadata)
  show "\<exists>m. getMetadata env settingsD msD =
             (Inr m, msD\<lparr>requests := requests msD @ [GetJson (JStr url)], ms_metadata := Some m\<rparr>) \<and>
           (\<forall>name. map_of m name =
              (case map_of fetched name of
                 Some v \<Rightarrow> Some v
               | None \<Rightarrow> (case seed of Some sd \<Rightarrow> map_of sd name | None \<Rightarrow> None))) \<and>
           (\<forall>calls. getMetadata env settingsD
                (service_run env settingsD calls (snd (getMetadata env settingsD msD)))
              = (Inr m, service_run env settingsD calls (snd (getMetadata env settingsD msD))))"
    using g look later by (intro exI [of _ m]) simp
next
  assume c: "ms_metadata msF = Some mF"
  show "\<forall>events. \<exists>m. ms_metadata (service_trace env settingsF events msF) = Some m \<and>
         getMetadata_request (service_trace env settingsF events msF)
           = (Some (Inr m), service_trace env settingsF events msF) \<and>
         getMetadata env settingsF (service_trace env settingsF events msF)
           = (Inr m, service_trace env settingsF events msF)"
  proof
    fix events
    from c have "ms_metadata (service_trace env settingsF events msF) \<noteq> None"
      by (intro service_trace_cached) simp
    then obtain m where m: "ms_metadata (service_trace env settingsF events msF) = Some m"
      by auto
    show "\<exists>m. ms_metadata (service_trace env settingsF events msF) = Some m \<and>
         getMetadata_request (service_trace env settingsF events msF)
           = (Some (Inr m), service_trace env settingsF events msF) \<and>
         getMetadata env settingsF (service_trace env settingsF events msF)
           = (Inr m, service_trace env settingsF events msF)"
      using m getMetadata_request_cached [OF m] getMetadata_cached [OF m] by blast
  qed
qed

theorem getMetadata_behaviour_witness:
  "cfg_authority example_settings = Some ''https://idp.example'' \<and>
   getMetadata example_env example_settings (new_MetadataService example_settings)
     = (Inr [(''issuer'', JStr ''https://idp.example''),
             (''jwks_uri'', JStr ''https://idp.example/jwks'')],
        new_MetadataService example_settings) \<and>
   requests (new_MetadataService example_settings) = [] \<and>
   getMetadata example_env (example_seeded_settings\<lparr>cfg_authority := None\<rparr>)
      (new_MetadataService (example_seeded_settings\<lparr>cfg_authority := None\<rparr>))
     = (Inl NoMetadataUrl, new_MetadataService (example_seeded_settings\<lparr>cfg_authority := None\<rparr>)) \<and>
   (\<exists>m. getMetadata example_discovery_env example_seeded_settings
          (new_MetadataService example_seeded_settings)
        = (Inr m, new_MetadataService example_seeded_settings
             \<lparr>requests := [GetJson (JStr ''https://idp.example/.well-known/openid-configuration'')],
              ms_metadata := Some m\<rparr>) \<and>
        map_of m ''issuer'' = Some (JStr ''https://idp.example'') \<and>
        map_of m ''token_endpoint'' = Some (JStr ''https://idp.example/token'') \<and>
        map_of m ''userinfo_endpoint'' = None \<and>
        getMetadata example_discovery_env example_seeded_settings
          (service_run example_discovery_env example_seeded_settings
             [GetMetadataProperty ''issuer'' False, ResetSigningKeys, GetMetadata]
             (snd (getMetadata example_discovery_env example_seeded_settings
                (new_MetadataService example_seeded_settings))))
        = (Inr m, service_run example_discovery_env example_seeded_settings
             [GetMetadataProperty ''issuer'' False, ResetSigningKeys, GetMetadata]
             (snd (getMetadata example_discovery_env example_seeded_settings
                (new_MetadataService example_seeded_settings))))) \<and>
   (\<exists>m. getMetadata example_env example_settings
          (service_trace example_env example_settings
             [MetadataRequested, MetadataAnswered (Inr (JObj [(''issuer'', JStr ''https://late.example'')])),
              Complete GetSigningKeys]
             (new_MetadataService example_settings))
        = (Inr m, service_trace example_env example_settings
             [MetadataRequested, MetadataAnswered (Inr (JObj [(''issuer'', JStr ''https://late.example'')])),
              Complete GetSigningKeys]
             (new_MetadataService example_settings)))"
proof -
  let ?ms = "new_MetadataService example_seeded_settings"
  let ?url = "''https://idp.example/.well-known/openid-configuration''"
  let ?fetched = "[(''issuer'', JStr ''https://idp.example''),
                   (''jwks_uri'', JStr ''https://idp.example/jwks'')]"
  let ?seed = "Some [(''issuer'', JStr ''https://seed.example''),
                     (''token_endpoint'', JStr ''https://idp.example/token'')]"
  let ?events = "[MetadataRequested,
      MetadataAnswered (Inr (JObj [(''issuer'', JStr ''https://late.example'')])),
      Complete GetSigningKeys]"
  note b = getMetadata_behaviour [where env = example_env
      and msA = "new_MetadataService example_settings" and settingsA = example_settings
      and mA = "[(''issuer'', JStr ''https://idp.example''), (''jwks_uri'', JStr ''https://idp.example/jwks'')]"
      and settingsB = example_settings
      and mB = "[(''issuer'', JStr ''https://idp.example''), (''jwks_uri'', JStr ''https://idp.example/jwks'')]"
      and settingsC = "example_seeded_settings\<lparr>cfg_authority := None\<rparr>"
      and settingsE = "example_seeded_settings\<lparr>cfg_authority := None\<rparr>"
      and msC = "new_MetadataService (example_seeded_settings\<lparr>cfg_authority := None\<rparr>)"
      and msF = "new_MetadataService example_settings" and settingsF = example_settings
      and mF = "[(''issuer'', JStr ''https://idp.example''), (''jwks_uri'', JStr ''https://idp.example/jwks'')]"]
  note c = getMetadata_behaviour [where env = example_discovery_env
      and settingsD = example_seeded_settings and msD = ?ms and url = ?url
      and fetched = ?fetched and seed = ?seed]
  have static: "cfg_metadata example_settings
      = Some [(''issuer'', JStr ''https://idp.example''), (''jwks_uri'', JStr ''https://idp.example/jwks'')]"
    and authority: "cfg_authority example_settings = Some ''https://idp.example''"
    by (simp_all add: example_settings_def)
  have cached: "ms_metadata (new_MetadataService example_settings)
      = Some [(''issuer'', JStr ''https://idp.example''), (''jwks_uri'', JStr ''https://idp.example/jwks'')]"
    by (simp add: new_MetadataService_def example_settings_def)
  have nourl: "ms_metadata (new_MetadataService (example_seeded_settings\<lparr>cfg_authority := None\<rparr>)) = None"
    "\<not> present (ms_metadataUrl (new_MetadataService (example_seeded_settings\<lparr>cfg_authority := None\<rparr>)))"
    by (simp_all add: new_MetadataService_def example_seeded_settings_def example_settings_def
        present_def)
  have empty: "requests ?ms = []"
    by (simp add: new_MetadataService_def)
  have fetch: "ms_metadata ?ms = None \<and> ms_metadataUrl ?ms = Some ?url \<and> ?url \<noteq> [] \<and>
      c_getJson example_discovery_env (length (requests ?ms)) (JStr ?url) = Inr (JObj ?fetched) \<and>
      distinct (map fst ?fetched) \<and> ''__proto__'' \<notin> set (map fst ?fetched) \<and>
      cfg_metadataSeed example_seeded_settings = ?seed \<and>
      (case ?seed of
         Some sd \<Rightarrow> distinct (map fst sd) \<and> ''__proto__'' \<notin> set (map fst sd)
       | None \<Rightarrow> True)"
    by (simp add: new_MetadataService_def example_seeded_settings_def example_settings_def
        present_def str_def OidcMetadataUrlPath_def example_discovery_env_def Let_def)
  from c [THEN conjunct2, THEN conjunct2, THEN conjunct2, THEN conjunct2, THEN conjunct1,
      THEN mp, OF fetch]
  obtain m where m:
    "getMetadata example_discovery_env example_seeded_settings ?ms
       = (Inr m, ?ms\<lparr>requests := requests ?ms @ [GetJson (JStr ?url)], ms_metadata := Some m\<rparr>)"
    "\<And>name. map_of m name =
       (case map_of ?fetched name of
          Some v \<Rightarrow> Some v
        | None \<Rightarrow> (case ?seed of Some sd \<Rightarrow> map_of sd name | None \<Rightarrow> None))"
    "\<And>calls. getMetadata example_discovery_env example_seeded_settings
        (service_run example_discovery_env example_seeded_settings calls
           (snd (getMetadata example_discovery_env example_seeded_settings ?ms)))
      = (Inr m, service_run example_discovery_env example_seeded_settings calls
           (snd (getMetadata example_discovery_env example_seeded_settings ?ms)))"
    by blast
  have "map_of m ''issuer'' = Some (JStr ''https://idp.example'')"
    and "map_of m ''token_endpoint'' = Some (JStr ''https://idp.example/token'')"
    and "map_of m ''userinfo_endpoint'' = None"
    unfolding m(2) by simp_all
  then have first: "\<exists>m. getMetadata example_discovery_env example_seeded_settings ?ms
        = (Inr m, ?ms\<lparr>requests := [GetJson (JStr ?url)], ms_metadata := Some m\<rparr>) \<and>
        map_of m ''issuer'' = Some (JStr ''https://idp.example'') \<and>
        map_of m ''token_endpoint'' = Some (JStr ''https://idp.example/token'') \<and>
        map_of m ''userinfo_endpoint'' = None \<and>
        getMetadata example_discovery_env example_seeded_settings
          (service_run example_discovery_env example_seeded_settings
             [GetMetadataProperty ''issuer'' False, ResetSigningKeys, GetMetadata]
             (snd (getMetadata example_discovery_env example_seeded_settings ?ms)))
        = (Inr m, service_run example_discovery_env example_seeded_settings
             [GetMetadataProperty ''issuer'' False, ResetSigningKeys, GetMetadata]
             (snd (getMetadata example_discovery_env example_seeded_settings ?ms)))"
    using m(1) m(3) [of "[GetMetadataProperty ''issuer'' False, ResetSigningKeys, GetMetadata]"]
      empty
    by (intro exI [of _ m]) simp
  from b [THEN conjunct2, THEN conjunct2, THEN conjunct2, THEN conjunct2, THEN conjunct2,
      THEN mp, OF cached, THEN spec, of ?events]
  have overlapped: "\<exists>m. getMetadata example_env example_settings
          (service_trace example_env example_settings ?events (new_MetadataService example_settings))
        = (Inr m, service_trace example_env example_settings ?events
             (new_MetadataService example_settings))"
    by blast
  show ?thesis
    using b first overlapped static authority nourl by simp
qed

text \<open>
  The claim as worded fails for calls that overlap. The cache is tested before the request
  and written after its answer, so a second call that starts while the first awaits its
  answer finds nothing cached and sends a request too: the instance has fetched twice.
\<close>

theorem getMetadata_counterexample:
  "fst (getMetadata_request (snd (getMetadata_request (new_MetadataService example_seeded_settings))))
     = None \<and>
   requests (service_trace example_discovery_env example_seeded_settings
      [MetadataRequested, MetadataRequested,
       MetadataAnswered (c_getJson example_discovery_env 0
          (JStr ''https://idp.example/.well-known/openid-configuration'')),
       MetadataAnswered (c_getJson example_discovery_env 1
          (JStr ''https://idp.example/.well-known/openid-configuration''))]
      (new_MetadataService example_seeded_settings))
     = [GetJson (JStr ''https://idp.example/.well-known/openid-configuration''),
        GetJson (JStr ''https://idp.example/.well-known/openid-configuration'')]"
  by (simp add: service_trace_def getMetadata_request_def getMetadata_response_def
      new_MetadataService_def example_seeded_settings_def example_settings_def
      example_discovery_env_def example_env_def present_def str_def OidcMetadataUrlPath_def
      Let_def)

section \<open>Signing-key resolution\<close>

lemma strict_eq_JStr_right: "strict_eq w (JStr v) = (w = JStr v)"
  by (cases w) simp_all

lemma member_object: "is_object k \<Longrightarrow> \<exists>w. member k name = Inr w"
  by (cases k) simp_all

lemma filter_members_objects:
  "list_all is_object ks \<Longrightarrow>
   filter_members name (JStr v) ks = Inr (filter (\<lambda>k. member k name = Inr (JStr v)) ks)"
proof (induction ks)
  case Nil
  then show ?case by simp
next
  case (Cons k ks)
  then obtain w where w: "member k name = Inr w"
    using member_object [of k name] by auto
  with Cons show ?case by (simp add: strict_eq_JStr_right)
qed

lemma first_or_null_objects:
  "list_all is_object ks \<Longrightarrow> first_or_null ks = (case ks of [] \<Rightarrow> JNull | k # _ \<Rightarrow> k)"
  by (cases ks) auto

lemma getSigningKeys_cached:
  "truthy (ms_signingKeys ms) \<Longrightarrow> getSigningKeys env settings ms = (Inr (ms_signingKeys ms), ms)"
  by (simp add: getSigningKeys_def)

lemma getSigningKeyForJwt_kid:
  assumes "getSigningKeys env settings ms = (Inr (JArr ks), ms')" and "list_all is_object ks"
    and "jwt_header jwt = Some h" and "present (h_kid h)"
  shows "getSigningKeyForJwt env settings jwt ms =
     (Inr (case filter (\<lambda>k. member k ''kid'' = Inr (JStr (str (h_kid h)))) ks of
             [] \<Rightarrow> JNull | k # _ \<Rightarrow> k), ms')"
proof -
  have j: "json_of (h_kid h) = JStr (str (h_kid h))"
    using assms(4) by (cases "h_kid h") (simp_all add: json_of_def str_def present_def)
  have o: "list_all is_object (filter (\<lambda>k. member k ''kid'' = Inr (JStr (str (h_kid h)))) ks)"
    using assms(2) by (simp add: list_all_iff)
  show ?thesis
    using assms
    by (simp add: getSigningKeyForJwt_def j filter_members_objects first_or_null_objects [OF o])
qed

lemma getSigningKeyForJwt_alg:
  assumes "getSigningKeys env settings ms = (Inr (JArr ks), ms')" and "list_all is_object ks"
    and "jwt_header jwt = Some h" and "\<not> present (h_kid h)" and "h_alg h = Some alg"
  shows "getSigningKeyForJwt env settings jwt ms =
     (Inr (case kty_of_alg alg of
             None \<Rightarrow> JNull
           | Some kty \<Rightarrow>
               (case filter (\<lambda>k. member k ''kty'' = Inr (JStr kty)) ks of
                  [k] \<Rightarrow> k | _ \<Rightarrow> JNull)), ms')"
  using assms
  by (simp add: getSigningKeyForJwt_def filterByAlg_def filter_members_objects
      split: option.splits list.splits)

lemma retry_resolved:
  "getSigningKeyForJwt env settings jwt ms = (Inr key, ms') \<Longrightarrow> truthy key \<Longrightarrow>
   getSigningKeyForJwtWithSingleRetry env settings jwt ms = (Inr key, ms')"
  by (simp add: getSigningKeyForJwtWithSingleRetry_def)

lemma retry_unresolved:
  "getSigningKeyForJwt env settings jwt ms = (Inr key, ms') \<Longrightarrow> \<not> truthy key \<Longrightarrow>
   getSigningKeyForJwtWithSingleRetry env settings jwt ms =
     getSigningKeyForJwt env settings jwt (ms'\<lparr>ms_signingKeys := JNull\<rparr>)"
  by (simp add: getSigningKeyForJwtWithSingleRetry_def resetSigningKeys_def)

lemma validateIdToken_no_key:
  assumes "present (st_nonce state)" and "c_parseJwt env id_token = Some jwt"
    and "jwt_header jwt = Some h" and "jwt_payload jwt = Some payload"
    and "get_prop payload ''nonce'' = json_of (st_nonce state)"
    and "getIssuer env settings ms = (Inr issuer, ms')"
    and "getSigningKeyForJwtWithSingleRetry env settings jwt ms' = (Inr key, ms'')"
    and "\<not> truthy key"
  shows "validateIdToken env settings state response id_token ms
     = (Some NoMatchingKey, response, ms'')"
proof -
  have "strict_eq (json_of (st_nonce state)) (get_prop payload ''nonce'')"
    using assms(1,5) by (cases "st_nonce state") (simp_all add: json_of_def present_def)
  then show ?thesis
    using assms by (simp add: validateIdToken_def)
qed

lemma getSigningKeyForJwt_cong:
  "getSigningKeys env settings ms1 = getSigningKeys env settings ms2 \<Longrightarrow>
   getSigningKeyForJwt env settings jwt ms1 = getSigningKeyForJwt env settings jwt ms2"
  by (simp add: getSigningKeyForJwt_def)

lemma kty_of_alg_families:
  "kty_of_alg alg =
     (if take 2 alg = ''RS'' then Some ''RSA''
      else if take 2 alg = ''PS'' then Some ''PS''
      else if take 2 alg = ''ES'' then Some ''EC''
      else None)"
proof -
  have "length ''RS'' = 2" "length ''PS'' = 2" "length ''ES'' = 2" by simp_all
  then show ?thesis unfolding kty_of_alg_def startsWith_def by (simp only:)
qed

lemma getKeysEndpoint_cached:
  assumes "ms_metadata ms = Some md" and "get_prop md ''jwks_uri'' = uri" and "uri \<noteq> JUndefined"
  shows "getKeysEndpoint env settings optional ms = (Inr uri, ms)"
  using assms by (simp add: getKeysEndpoint_def getMetadataProperty_def getMetadata_cached)

lemma getSigningKeys_fetched:
  assumes "\<not> truthy (ms_signingKeys ms)"
    and "getKeysEndpoint env settings False ms = (Inr uri, msK)"
    and "c_getJson env (length (requests msK)) uri = Inr (JObj doc)"
    and "get_prop doc ''keys'' = JArr ks"
  shows "getSigningKeys env settings ms =
     (Inr (JArr ks), msK\<lparr>requests := requests msK @ [GetJson uri], ms_signingKeys := JArr ks\<rparr>)"
  using assms by (simp add: getSigningKeys_def Let_def)

lemma getSigningKeyForJwt_no_alg:
  assumes "getSigningKeys env settings ms = (Inr (JArr ks), ms')"
    and "jwt_header jwt = Some h" and "\<not> present (h_kid h)" and "h_alg h = None"
  shows "getSigningKeyForJwt env settings jwt ms = (Inl TypeError, ms')"
  using assms by (simp add: getSigningKeyForJwt_def filterByAlg_def)

lemma retry_thrown:
  "getSigningKeyForJwt env settings jwt ms = (Inl e, ms') \<Longrightarrow>
   getSigningKeyForJwtWithSingleRetry env settings jwt ms = (Inl e, ms')"
  by (simp add: getSigningKeyForJwtWithSingleRetry_def)

lemma retry_fetches_again:
  assumes "getSigningKeyForJwt env settings jwt ms = (Inr key, msA)" and "\<not> truthy key"
    and "ms_metadata msA = Some md" and "get_prop md ''jwks_uri'' = uri" and "uri \<noteq> JUndefined"
    and "c_getJson env (length (requests msA)) uri = Inr (JObj doc)"
    and "get_prop doc ''keys'' = JArr ks"
  shows "getSigningKeyForJwtWithSingleRetry env settings jwt ms =
     getSigningKeyForJwt env settings jwt
       (msA\<lparr>requests := requests msA @ [GetJson uri], ms_signingKeys := JArr ks\<rparr>)"
    and "getSigningKeys env settings
       (msA\<lparr>requests := requests msA @ [GetJson uri], ms_signingKeys := JArr ks\<rparr>)
     = (Inr (JArr ks), msA\<lparr>requests := requests msA @ [GetJson uri], ms_signingKeys := JArr ks\<rparr>)"
    and "snd (getSigningKeyForJwtWithSingleRetry env settings jwt ms) =
       msA\<lparr>requests := requests msA @ [GetJson uri], ms_signingKeys := JArr ks\<rparr>"
proof -
  let ?reset = "msA\<lparr>ms_signingKeys := JNull\<rparr>"
  let ?fresh = "msA\<lparr>requests := requests msA @ [GetJson uri], ms_signingKeys := JArr ks\<rparr>"
  have endpoint: "getKeysEndpoint env settings False ?reset = (Inr uri, ?reset)"
    using assms(3-5) by (intro getKeysEndpoint_cached [of _ md]) simp_all
  have "getSigningKeys env settings ?reset = (Inr (JArr ks), ?fresh)"
    using getSigningKeys_fetched [OF _ endpoint, of doc ks] assms(6,7) by simp
  moreover show cached: "getSigningKeys env settings ?fresh = (Inr (JArr ks), ?fresh)"
    using getSigningKeys_cached [of ?fresh env settings] by simp
  ultimately have "getSigningKeyForJwt env settings jwt ?reset
      = getSigningKeyForJwt env settings jwt ?fresh"
    by (intro getSigningKeyForJwt_cong) simp
  then show again: "getSigningKeyForJwtWithSingleRetry env settings jwt ms =
     getSigningKeyForJwt env settings jwt ?fresh"
    using retry_unresolved [OF assms(1,2)] by simp
  have "snd (getSigningKeyForJwt env settings jwt ?fresh) = ?fresh"
    using cached
    by (simp add: getSigningKeyForJwt_def split: option.splits sum.splits list.splits)
  with again show "snd (getSigningKeyForJwtWithSingleRetry env settings jwt ms) = ?fresh"
    by simp
qed

lemma getIssuer_caches:
  "getIssuer env settings ms = (Inr issuer, ms') \<Longrightarrow> \<exists>md. ms_metadata ms' = Some md"
  by (auto simp: getIssuer_def getMetadataProperty_def getMetadata_def Let_def
      split: option.splits sum.splits if_splits)

lemma validateIdToken_thrown:
  assumes "present (st_nonce state)" and "c_parseJwt env id_token = Some jwt"
    and "jwt_header jwt = Some h" and "jwt_payload jwt = Some payload"
    and "get_prop payload ''nonce'' = json_of (st_nonce state)"
    and "getIssuer env settings ms = (Inr issuer, ms')"
    and "getSigningKeyForJwtWithSingleRetry env settings jwt ms' = (Inl e, ms'')"
  shows "validateIdToken env settings state response id_token ms = (Some e, response, ms'')"
proof -
  have "strict_eq (json_of (st_nonce state)) (get_prop payload ''nonce'')"
    using assms(1,5) by (cases "st_nonce state") (simp_all add: json_of_def present_def)
  then show ?thesis
    using assms by (simp add: validateIdToken_def)
qed

text \<open>
  C4, as the code has it. Let the token's header be parsed.
  \<^item> The key set is the cached one when the cache holds one, and no request is made; with
    an empty cache it is the array under \<^verbatim>\<open>keys\<close> of the document fetched by one request
    to \<^verbatim>\<open>jwks_uri\<close>, which is then cached. The \<^verbatim>\<open>jwks_uri\<close> is read from the cached
    metadata without a request.
  \<^item> With a \<^verbatim>\<open>kid\<close> in the header, the key resolved is the key of the set with that
    \<^verbatim>\<open>kid\<close>, or none when the set has no such key (of several keys with one \<^verbatim>\<open>kid\<close>, the
    first).
  \<^item> Without a \<^verbatim>\<open>kid\<close> and with an \<^verbatim>\<open>alg\<close>, the keys are filtered by the key type of the
    algorithm family (\<^verbatim>\<open>RS\<close> to \<^verbatim>\<open>RSA\<close>, \<^verbatim>\<open>PS\<close> to \<^verbatim>\<open>PS\<close>, \<^verbatim>\<open>ES\<close> to \<^verbatim>\<open>EC\<close>, no
    candidate for any other family), and a key is resolved only when exactly one remains.
  \<^item> With neither, the resolution throws a TypeError.
  \<^item> A resolved key is returned without a retry, and a failure thrown by the first
    attempt is passed on without one. When the first attempt resolves no key, the cache
    is invalidated and resolution runs once more, whatever the first attempt found in the
    cache or fetched: against the key set fetched by one more request to \<^verbatim>\<open>jwks_uri\<close>,
    whose result is final.
  \<^item> Once the issuer has been read the metadata is cached. When the retry resolves no
    key either, id-token validation fails with the no-matching-key error; a failure
    thrown by the resolution fails it as well.
\<close>

theorem signing_key_resolution:
  assumes "jwt_header jwt = Some h"
  shows
   "(truthy (ms_signingKeys ms) \<longrightarrow>
       getSigningKeys env settings ms = (Inr (ms_signingKeys ms), ms)) \<and>
    (ms_metadata ms = Some md \<and> get_prop md ''jwks_uri'' = uri \<and> uri \<noteq> JUndefined \<longrightarrow>
       getKeysEndpoint env settings False ms = (Inr uri, ms)) \<and>
    (\<not> truthy (ms_signingKeys ms) \<and> getKeysEndpoint env settings False ms = (Inr uri, msK) \<and>
     c_getJson env (length (requests msK)) uri = Inr (JObj doc) \<and>
     get_prop doc ''keys'' = JArr ks \<longrightarrow>
       getSigningKeys env settings ms =
         (Inr (JArr ks), msK\<lparr>requests := requests msK @ [GetJson uri], ms_signingKeys := JArr ks\<rparr>)) \<and>
    (getSigningKeys env settings ms = (Inr (JArr ks), msA) \<and> list_all is_object ks \<and>
     present (h_kid h) \<longrightarrow>
       getSigningKeyForJwt env settings jwt ms =
         (Inr (case filter (\<lambda>k. member k ''kid'' = Inr (JStr (str (h_kid h)))) ks of
                 [] \<Rightarrow> JNull | k # _ \<Rightarrow> k), msA)) \<and>
    (getSigningKeys env settings ms = (Inr (JArr ks), msA) \<and> list_all is_object ks \<and>
     \<not> present (h_kid h) \<and> h_alg h = Some alg \<longrightarrow>
       getSigningKeyForJwt env settings jwt ms =
         (Inr (case kty_of_alg alg of
                 None \<Rightarrow> JNull
               | Some kty \<Rightarrow>
                   (case filter (\<lambda>k. member k ''kty'' = Inr (JStr kty)) ks of
                      [k] \<Rightarrow> k | _ \<Rightarrow> JNull)), msA) \<and>
       kty_of_alg alg =
         (if take 2 alg = ''RS'' then Some ''RSA''
          else if take 2 alg = ''PS'' then Some ''PS''
          else if take 2 alg = ''ES'' then Some ''EC''
          else None)) \<and>
    (getSigningKeys env settings ms = (Inr (JArr ks), msA) \<and>
     \<not> present (h_kid h) \<and> h_alg h = None \<longrightarrow>
       getSigningKeyForJwt env settings jwt ms = (Inl TypeError, msA)) \<and>
    (getSigningKeyForJwt env settings jwt ms = (Inr key, msA) \<and> truthy key \<longrightarrow>
       getSigningKeyForJwtWithSingleRetry env settings jwt ms = (Inr key, msA)) \<and>
    (getSigningKeyForJwt env settings jwt ms = (Inl e, msA) \<longrightarrow>
       getSigningKeyForJwtWithSingleRetry env settings jwt ms = (Inl e, msA)) \<and>
    (getSigningKeyForJwt env settings jwt ms = (Inr key, msA) \<and> \<not> truthy key \<longrightarrow>
       getSigningKeyForJwtWithSingleRetry env settings jwt ms =
         getSigningKeyForJwt env settings jwt (msA\<lparr>ms_signingKeys := JNull\<rparr>)) \<and>
    (getSigningKeyForJwt env settings jwt ms = (Inr key, msA) \<and> \<not> truthy key \<and>
     ms_metadata msA = Some md \<and> get_prop md ''jwks_uri'' = uri \<and> uri \<noteq> JUndefined \<and>
     c_getJson env (length (requests msA)) uri = Inr (JObj doc) \<and>
     get_prop doc ''keys'' = JArr ks \<longrightarrow>
       getSigningKeyForJwtWithSingleRetry env settings jwt ms =
         getSigningKeyForJwt env settings jwt
           (msA\<lparr>requests := requests msA @ [GetJson uri], ms_signingKeys := JArr ks\<rparr>) \<and>
       getSigningKeys env settings
           (msA\<lparr>requests := requests msA @ [GetJson uri], ms_signingKeys := JArr ks\<rparr>)
         = (Inr (JArr ks),
            msA\<lparr>requests := requests msA @ [GetJson uri], ms_signingKeys := JArr ks\<rparr>) \<and>
       snd (getSigningKeyForJwtWithSingleRetry env settings jwt ms) =
         msA\<lparr>requests := requests msA @ [GetJson uri], ms_signingKeys := JArr ks\<rparr>) \<and>
    (getIssuer env settings msI = (Inr issuer, ms) \<longrightarrow> (\<exists>cached. ms_metadata ms = Some cached)) \<and>
    (present (st_nonce state) \<and> c_parseJwt env id_token = Some jwt \<and>
     jwt_payload jwt = Some payload \<and> get_prop payload ''nonce'' = json_of (st_nonce state) \<and>
     getIssuer env settings msI = (Inr issuer, ms) \<and>
     getSigningKeyForJwtWithSingleRetry env settings jwt ms = (Inr key, msZ) \<and> \<not> truthy key \<longrightarrow>
       validateIdToken env settings state response id_token msI
         = (Some NoMatchingKey, response, msZ)) \<and>
    (present (st_nonce state) \<and> c_parseJwt env id_token = Some jwt \<and>
     jwt_payload jwt = Some payload \<and> get_prop payload ''nonce'' = json_of (st_nonce state) \<and>
     getIssuer env settings msI = (Inr issuer, ms) \<and>
     getSigningKeyForJwtWithSingleRetry env settings jwt ms = (Inl e, msZ) \<longrightarrow>
       validateIdToken env settings state response id_token msI = (Some e, response, msZ))"
proof -
  note h = assms
  have warm: "truthy (ms_signingKeys ms) \<longrightarrow>
       getSigningKeys env settings ms = (Inr (ms_signingKeys ms), ms)"
    by (simp add: getSigningKeys_cached)
  have endpoint: "ms_metadata ms = Some md \<and> get_prop md ''jwks_uri'' = uri \<and> uri \<noteq> JUndefined \<longrightarrow>
       getKeysEndpoint env settings False ms = (Inr uri, ms)"
    using getKeysEndpoint_cached [of ms md uri env settings False] by blast
  have cold: "\<not> truthy (ms_signingKeys ms) \<and> getKeysEndpoint env settings False ms = (Inr uri, msK) \<and>
     c_getJson env (length (requests msK)) uri = Inr (JObj doc) \<and>
     get_prop doc ''keys'' = JArr ks \<longrightarrow>
       getSigningKeys env settings ms =
         (Inr (JArr ks), msK\<lparr>requests := requests msK @ [GetJson uri], ms_signingKeys := JArr ks\<rparr>)"
    using getSigningKeys_fetched [of ms env settings uri msK doc ks] by blast
  have kid: "getSigningKeys env settings ms = (Inr (JArr ks), msA) \<and> list_all is_object ks \<and>
     present (h_kid h) \<longrightarrow>
       getSigningKeyForJwt env settings jwt ms =
         (Inr (case filter (\<lambda>k. member k ''kid'' = Inr (JStr (str (h_kid h)))) ks of
                 [] \<Rightarrow> JNull | k # _ \<Rightarrow> k), msA)"
    using getSigningKeyForJwt_kid [of env settings ms ks msA jwt h] h by blast
  have alg: "getSigningKeys env settings ms = (Inr (JArr ks), msA) \<and> list_all is_object ks \<and>
     \<not> present (h_kid h) \<and> h_alg h = Some alg \<longrightarrow>
       getSigningKeyForJwt env settings jwt ms =
         (Inr (case kty_of_alg alg of
                 None \<Rightarrow> JNull
               | Some kty \<Rightarrow>
                   (case filter (\<lambda>k. member k ''kty'' = Inr (JStr kty)) ks of
                      [k] \<Rightarrow> k | _ \<Rightarrow> JNull)), msA) \<and>
       kty_of_alg alg =
         (if take 2 alg = ''RS'' then Some ''RSA''
          else if take 2 alg = ''PS'' then Some ''PS''
          else if take 2 alg = ''ES'' then Some ''EC''
          else None)"
    using getSigningKeyForJwt_alg [of env settings ms ks msA jwt h alg] h
      kty_of_alg_families [of alg]
    by blast
  have neither: "getSigningKeys env settings ms = (Inr (JArr ks), msA) \<and>
     \<not> present (h_kid h) \<and> h_alg h = None \<longrightarrow>
       getSigningKeyForJwt env settings jwt ms = (Inl TypeError, msA)"
    using getSigningKeyForJwt_no_alg [of env settings ms ks msA jwt h] h by blast
  have resolved: "getSigningKeyForJwt env settings jwt ms = (Inr key, msA) \<and> truthy key \<longrightarrow>
       getSigningKeyForJwtWithSingleRetry env settings jwt ms = (Inr key, msA)"
    using retry_resolved [of env settings jwt ms key msA] by blast
  have thrown: "getSigningKeyForJwt env settings jwt ms = (Inl e, msA) \<longrightarrow>
       getSigningKeyForJwtWithSingleRetry env settings jwt ms = (Inl e, msA)"
    using retry_thrown [of env settings jwt ms e msA] by blast
  have retried: "getSigningKeyForJwt env settings jwt ms = (Inr key, msA) \<and> \<not> truthy key \<longrightarrow>
       getSigningKeyForJwtWithSingleRetry env settings jwt ms =
         getSigningKeyForJwt env settings jwt (msA\<lparr>ms_signingKeys := JNull\<rparr>)"
    using retry_unresolved [of env settings jwt ms key msA] by blast
  have refetched: "getSigningKeyForJwt env settings jwt ms = (Inr key, msA) \<and> \<not> truthy key \<and>
     ms_metadata msA = Some md \<and> get_prop md ''jwks_uri'' = uri \<and> uri \<noteq> JUndefined \<and>
     c_getJson env (length (requests msA)) uri = Inr (JObj doc) \<and>
     get_prop doc ''keys'' = JArr ks \<longrightarrow>
       getSigningKeyForJwtWithSingleRetry env settings jwt ms =
         getSigningKeyForJwt env settings jwt
           (msA\<lparr>requests := requests msA @ [GetJson uri], ms_signingKeys := JArr ks\<rparr>) \<and>
       getSigningKeys env settings
           (msA\<lparr>requests := requests msA @ [GetJson uri], ms_signingKeys := JArr ks\<rparr>)
         = (Inr (JArr ks),
            msA\<lparr>requests := requests msA @ [GetJson uri], ms_signingKeys := JArr ks\<rparr>) \<and>
       snd (getSigningKeyForJwtWithSingleRetry env settings jwt ms) =
         msA\<lparr>requests := requests msA @ [GetJson uri], ms_signingKeys := JArr ks\<rparr>"
    using retry_fetches_again [of env settings jwt ms key msA md uri doc ks] by blast
  have issuer: "getIssuer env settings msI = (Inr issuer, ms) \<longrightarrow>
      (\<exists>cached. ms_metadata ms = Some cached)"
    using getIssuer_caches [of env settings msI issuer ms] by blast
  have fails: "present (st_nonce state) \<and> c_parseJwt env id_token = Some jwt \<and>
     jwt_payload jwt = Some payload \<and> get_prop payload ''nonce'' = json_of (st_nonce state) \<and>
     getIssuer env settings msI = (Inr issuer, ms) \<and>
     getSigningKeyForJwtWithSingleRetry env settings jwt ms = (Inr key, msZ) \<and> \<not> truthy key \<longrightarrow>
       validateIdToken env settings state response id_token msI
         = (Some NoMatchingKey, response, msZ)"
    using validateIdToken_no_key
      [of state env id_token jwt h payload settings msI issuer ms key msZ response] h
    by blast
  have propagates: "present (st_nonce state) \<and> c_parseJwt env id_token = Some jwt \<and>
     jwt_payload jwt = Some payload \<and> get_prop payload ''nonce'' = json_of (st_nonce state) \<and>
     getIssuer env settings msI = (Inr issuer, ms) \<and>
     getSigningKeyForJwtWithSingleRetry env settings jwt ms = (Inl e, msZ) \<longrightarrow>
       validateIdToken env settings state response id_token msI = (Some e, response, msZ)"
    using validateIdToken_thrown
      [of state env id_token jwt h payload settings msI issuer ms e msZ response] h
    by blast
  show ?thesis
    by (intro conjI warm endpoint cold kid alg neither resolved thrown retried refetched
        issuer fails propagates)
qed

theorem signing_key_resolution_witness:
  "getSigningKeyForJwt example_keys_env example_settings
      (example_jwt (Some ''k2'') (Some ''RS256'')) example_keys_service
     = (Inr (JObj [(''kid'', JStr ''k2''), (''kty'', JStr ''EC'')]), example_keys_service) \<and>
   getSigningKeyForJwt example_keys_env example_settings
      (example_jwt None (Some ''ES256'')) example_keys_service
     = (Inr (JObj [(''kid'', JStr ''k2''), (''kty'', JStr ''EC'')]), example_keys_service) \<and>
   getSigningKeyForJwt example_keys_env example_settings
      (example_jwt None (Some ''HS256'')) example_keys_service
     = (Inr JNull, example_keys_service) \<and>
   ms_signingKeys example_cold_service = JNull \<and>
   getSigningKeyForJwt example_rotating_env example_settings
      (example_jwt (Some ''k3'') (Some ''RS256'')) example_cold_service
     = (Inr JNull,
        example_cold_service
          \<lparr>requests := [GetJson (JStr ''https://idp.example/jwks'')],
           ms_signingKeys := JArr example_keys\<rparr>) \<and>
   getSigningKeyForJwtWithSingleRetry example_rotating_env example_settings
      (example_jwt (Some ''k3'') (Some ''RS256'')) example_cold_service
     = (Inr (JObj [(''kid'', JStr ''k3''), (''kty'', JStr ''RSA'')]),
        example_cold_service
          \<lparr>requests := [GetJson (JStr ''https://idp.example/jwks''),
                        GetJson (JStr ''https://idp.example/jwks'')],
           ms_signingKeys := JArr example_rotated_keys\<rparr>) \<and>
   validateIdToken example_rotating_env example_settings
      (example_state\<lparr>st_nonce := Some ''n0nce''\<rparr>) example_implicit ''k9'' example_cold_service
     = (Some NoMatchingKey, example_implicit,
        example_cold_service
          \<lparr>requests := [GetJson (JStr ''https://idp.example/jwks''),
                        GetJson (JStr ''https://idp.example/jwks'')],
           ms_signingKeys := JArr example_rotated_keys\<rparr>)"
proof -
  let ?W = example_keys_service
  let ?S = example_cold_service
  let ?uri = "JStr ''https://idp.example/jwks''"
  let ?first = "?S\<lparr>requests := requests ?S @ [GetJson ?uri], ms_signingKeys := JArr example_keys\<rparr>"
  let ?second = "?first\<lparr>requests := requests ?first @ [GetJson ?uri],
                         ms_signingKeys := JArr example_rotated_keys\<rparr>"
  let ?md = "[(''issuer'', JStr ''https://idp.example''), (''jwks_uri'', ?uri)]"
  have header: "jwt_header (example_jwt kid alg) = Some \<lparr> h_alg = alg, h_kid = kid \<rparr>"
    and payload: "jwt_payload (example_jwt kid alg)
      = Some [(''sub'', JStr ''abc''), (''nonce'', JStr ''n0nce'')]" for kid alg
    by (simp_all add: example_jwt_def)
  have warm: "ms_signingKeys ?W = JArr example_keys"
    by (simp add: example_keys_service_def new_MetadataService_def)
  have cold: "ms_signingKeys ?S = JNull" and md: "ms_metadata ?S = Some ?md"
    and empty: "requests ?S = []"
    by (simp_all add: example_cold_service_def new_MetadataService_def example_settings_def)
  have objs: "list_all is_object example_keys" "list_all is_object example_rotated_keys"
    by (simp_all add: example_keys_def example_rotated_keys_def)
  have answer: "c_getJson example_rotating_env n ?uri
      = Inr (JObj [(''keys'', JArr (if n = 0 then example_keys else example_rotated_keys))])" for n
    by (simp add: example_rotating_env_def)
  have uri: "get_prop ?md ''jwks_uri'' = ?uri" "?uri \<noteq> JUndefined"
    by (simp_all add: get_prop_def)
  have keys: "get_prop [(''keys'', JArr ks)] ''keys'' = JArr ks" for ks
    by (simp add: get_prop_def)
  note w = signing_key_resolution [where env = example_keys_env and settings = example_settings]
  note r = signing_key_resolution [where env = example_rotating_env and settings = example_settings]
  have cached: "getSigningKeys example_keys_env example_settings ?W = (Inr (JArr example_keys), ?W)"
    using w [OF header [of None None], where ms = ?W, THEN conjunct1] warm by simp
  have k2: "getSigningKeyForJwt example_keys_env example_settings
      (example_jwt (Some ''k2'') (Some ''RS256'')) ?W
     = (Inr (JObj [(''kid'', JStr ''k2''), (''kty'', JStr ''EC'')]), ?W)"
    using w [OF header [of "Some ''k2''" "Some ''RS256''"],
        where ms = ?W and msA = ?W and ks = example_keys,
        THEN conjunct2, THEN conjunct2, THEN conjunct2, THEN conjunct1] cached objs(1)
    by (simp add: present_def str_def example_keys_def get_prop_def)
  have es: "getSigningKeyForJwt example_keys_env example_settings
      (example_jwt None (Some ''ES256'')) ?W
     = (Inr (JObj [(''kid'', JStr ''k2''), (''kty'', JStr ''EC'')]), ?W)"
    using w [OF header [of None "Some ''ES256''"],
        where ms = ?W and msA = ?W and ks = example_keys and alg = "''ES256''",
        THEN conjunct2, THEN conjunct2, THEN conjunct2, THEN conjunct2, THEN conjunct1]
      cached objs(1)
    by (simp add: present_def example_keys_def get_prop_def)
  have hs: "getSigningKeyForJwt example_keys_env example_settings
      (example_jwt None (Some ''HS256'')) ?W = (Inr JNull, ?W)"
    using w [OF header [of None "Some ''HS256''"],
        where ms = ?W and msA = ?W and ks = example_keys and alg = "''HS256''",
        THEN conjunct2, THEN conjunct2, THEN conjunct2, THEN conjunct2, THEN conjunct1]
      cached objs(1)
    by (simp add: present_def)
  have endpoint: "getKeysEndpoint example_rotating_env example_settings False ?S = (Inr ?uri, ?S)"
    using r [OF header [of None None], where ms = ?S and md = ?md and uri = ?uri,
        THEN conjunct2, THEN conjunct1] md uri
    by simp
  have fetched: "getSigningKeys example_rotating_env example_settings ?S
      = (Inr (JArr example_keys), ?first)"
    using r [OF header [of None None], where ms = ?S and msK = ?S and uri = ?uri
        and doc = "[(''keys'', JArr example_keys)]" and ks = example_keys,
        THEN conjunct2, THEN conjunct2, THEN conjunct1]
      cold endpoint answer [of 0] empty keys
    by simp
  have miss: "getSigningKeyForJwt example_rotating_env example_settings
      (example_jwt (Some kid) (Some ''RS256'')) ?S = (Inr JNull, ?first)"
    if "kid = ''k3'' \<or> kid = ''k9''" for kid
    using r [OF header [of "Some kid" "Some ''RS256''"],
        where ms = ?S and msA = ?first and ks = example_keys,
        THEN conjunct2, THEN conjunct2, THEN conjunct2, THEN conjunct1]
      fetched objs(1) that
    by (auto simp: present_def str_def example_keys_def get_prop_def)
  have again: "getSigningKeyForJwtWithSingleRetry example_rotating_env example_settings
      (example_jwt (Some kid) (Some ''RS256'')) ?S =
     getSigningKeyForJwt example_rotating_env example_settings
      (example_jwt (Some kid) (Some ''RS256'')) ?second"
    and refreshed: "getSigningKeys example_rotating_env example_settings ?second
      = (Inr (JArr example_rotated_keys), ?second)"
    if "kid = ''k3'' \<or> kid = ''k9''" for kid
    using r [OF header [of "Some kid" "Some ''RS256''"],
        where ms = ?S and msA = ?first and key = JNull and md = ?md and uri = ?uri
        and doc = "[(''keys'', JArr example_rotated_keys)]" and ks = example_rotated_keys,
        THEN conjunct2, THEN conjunct2, THEN conjunct2, THEN conjunct2, THEN conjunct2,
        THEN conjunct2, THEN conjunct2, THEN conjunct2, THEN conjunct2, THEN conjunct1]
      miss [OF that] md uri answer [of 1] empty keys
    by simp_all
  have k3: "getSigningKeyForJwtWithSingleRetry example_rotating_env example_settings
      (example_jwt (Some ''k3'') (Some ''RS256'')) ?S
     = (Inr (JObj [(''kid'', JStr ''k3''), (''kty'', JStr ''RSA'')]), ?second)"
    using again [of "''k3''"] refreshed [of "''k3''"] objs(2)
      r [OF header [of "Some ''k3''" "Some ''RS256''"],
        where ms = ?second and msA = ?second and ks = example_rotated_keys,
        THEN conjunct2, THEN conjunct2, THEN conjunct2, THEN conjunct1]
    by (simp add: present_def str_def example_rotated_keys_def get_prop_def)
  have k9: "getSigningKeyForJwtWithSingleRetry example_rotating_env example_settings
      (example_jwt (Some ''k9'') (Some ''RS256'')) ?S = (Inr JNull, ?second)"
    using again [of "''k9''"] refreshed [of "''k9''"] objs(2)
      r [OF header [of "Some ''k9''" "Some ''RS256''"],
        where ms = ?second and msA = ?second and ks = example_rotated_keys,
        THEN conjunct2, THEN conjunct2, THEN conjunct2, THEN conjunct1]
    by (simp add: present_def str_def example_rotated_keys_def get_prop_def)
  have issuer: "getIssuer example_rotating_env example_settings ?S
      = (Inr (JStr ''https://idp.example''), ?S)"
    by (simp add: getIssuer_def getMetadataProperty_def getMetadata_cached [OF md] get_prop_def)
  have parse: "c_parseJwt example_rotating_env ''k9''
      = Some (example_jwt (Some ''k9'') (Some ''RS256''))"
    by (simp add: example_rotating_env_def example_keys_env_def)
  have nonce: "present (st_nonce (example_state\<lparr>st_nonce := Some ''n0nce''\<rparr>))"
    "get_prop [(''sub'', JStr ''abc''), (''nonce'', JStr ''n0nce'')] ''nonce''
       = json_of (st_nonce (example_state\<lparr>st_nonce := Some ''n0nce''\<rparr>))"
    by (simp_all add: present_def get_prop_def json_of_def)
  have fail: "validateIdToken example_rotating_env example_settings
      (example_state\<lparr>st_nonce := Some ''n0nce''\<rparr>) example_implicit ''k9'' ?S
     = (Some NoMatchingKey, example_implicit, ?second)"
    using r [OF header [of "Some ''k9''" "Some ''RS256''"],
        where ms = ?S and msI = ?S and key = JNull and msZ = ?second and id_token = "''k9''"
        and state = "example_state\<lparr>st_nonce := Some ''n0nce''\<rparr>"
        and payload = "[(''sub'', JStr ''abc''), (''nonce'', JStr ''n0nce'')]"
        and issuer = "JStr ''https://idp.example''" and response = example_implicit,
        THEN conjunct2, THEN conjunct2, THEN conjunct2, THEN conjunct2, THEN conjunct2,
        THEN conjunct2, THEN conjunct2, THEN conjunct2, THEN conjunct2, THEN conjunct2,
        THEN conjunct2, THEN conjunct1]
      k9 parse payload nonce issuer
    by simp
  show ?thesis
    using k2 es hs cold miss [of "''k3''"] k3 fail empty by simp
qed

text \<open>
  The claim as worded fails for a header that has neither \<^verbatim>\<open>kid\<close> nor \<^verbatim>\<open>alg\<close>: no key is
  resolved, yet the cache is not invalidated and nothing is fetched again, because the
  resolution throws. A header of an unsupported family, by contrast, has the key set
  fetched again.
\<close>

theorem signing_key_resolution_counterexample:
  "getSigningKeyForJwtWithSingleRetry example_keys_env example_settings
      (example_jwt None None) example_keys_service
     = (Inl TypeError, example_keys_service) \<and>
   ms_signingKeys example_keys_service = JArr example_keys \<and>
   requests example_keys_service = [] \<and>
   getSigningKeyForJwtWithSingleRetry example_keys_env example_settings
      (example_jwt None (Some ''HS256'')) example_keys_service
     = (Inr JNull,
        example_keys_service
          \<lparr>requests := [GetJson (JStr ''https://idp.example/jwks'')],
           ms_signingKeys := JArr example_rotated_keys\<rparr>)"
  by (simp add: getSigningKeyForJwtWithSingleRetry_def getSigningKeyForJwt_def
      getSigningKeys_def getKeysEndpoint_def getMetadataProperty_def getMetadata_def
      resetSigningKeys_def filterByAlg_def kty_of_alg_def startsWith_def
      example_jwt_def example_keys_service_def example_keys_env_def example_env_def
      example_settings_def new_MetadataService_def present_def get_prop_def Let_def)

end
